theory Spec2Isabelle
  imports Complex_Main
begin

section \<open>Data model\<close>

text \<open>
  The tables of the ordering service. Identifiers are UUIDs in the source; they are
  modelled as natural numbers, and a fresh one is drawn from a counter kept in the
  database state. Prices are exact decimals (\<open>rat\<close>), stock counts and quantities are
  Python integers (\<open>int\<close>).
\<close>

type_synonym uuid = nat

text \<open>
  Modelled from the spec: the members of the enum \<open>OrderStatus\<close>, declared in
  \<open>app.database.models\<close>, which is not part of the sources. The spec and the tests
  name these three.
\<close>

datatype OrderStatus = TRANSMITTED | PREPARING | COMPLETED

record Beverage =
  beverage_price :: rat
  beverage_stock :: int

record PizzaTypeToppingQuantity =
  tq_topping_id :: uuid
  tq_quantity :: int

record PizzaType =
  pt_id :: uuid
  pt_price :: rat
  pt_dough_id :: uuid
  pt_toppings :: "PizzaTypeToppingQuantity list"

record Pizza =
  pizza_id :: uuid
  pizza_order_id :: "uuid option"
  pizza_type_id :: "uuid option"

record OrderBeverageQuantity =
  obq_order_id :: uuid
  obq_beverage_id :: uuid
  obq_quantity :: int

record Order =
  order_id :: uuid
  order_user_id :: uuid
  order_status :: OrderStatus

text \<open>
  The database session. The stock column of the dough and topping rows is reached in
  the source only through the relationships \<open>pizza_type.dough\<close> and
  \<open>topping_quantity.topping\<close>, whose foreign keys the persistence layer enforces, so
  the two stock columns are total functions of the row identifier. Beverages are looked
  up by identifier and may be absent. Pizza types, orders, pizzas and beverage lines
  are tables whose rows a query enumerates; \<open>.first()\<close> is \<open>find\<close>.
\<close>

record db =
  dough_stock :: "uuid \<Rightarrow> int"
  topping_stock :: "uuid \<Rightarrow> int"
  beverages :: "uuid \<rightharpoonup> Beverage"
  pizza_types :: "PizzaType list"
  users :: "uuid list"
  orders :: "Order list"
  pizzas :: "Pizza list"
  order_beverages :: "OrderBeverageQuantity list"
  next_uuid :: uuid

text \<open>
  What an endpoint hands back: a bare \<open>Response(status_code=n)\<close>, a raised
  \<open>HTTPException(status_code=n)\<close>, a \<open>RedirectResponse\<close> to the beverage list of an
  order, or a returned entity. An exception that no handler catches (attribute access
  on \<open>None\<close>) is \<open>UncaughtError\<close>.
\<close>

datatype response =
    Response nat
  | HTTPException nat
  | RedirectResponse uuid nat
  | ReturnOrder uuid
  | ReturnPizza uuid
  | ReturnBeverageQuantity "OrderBeverageQuantity option"
  | ReturnPrice rat
  | UncaughtError

section \<open>Stock logic for ingredients\<close>

text \<open>The loop of \<open>ingredients_are_available\<close> over the topping quantities.\<close>

fun toppings_are_available :: "PizzaTypeToppingQuantity list \<Rightarrow> db \<Rightarrow> bool" where
  "toppings_are_available [] s = True"
| "toppings_are_available (tq # tqs) s =
     (if topping_stock s (tq_topping_id tq) < tq_quantity tq then False
      else toppings_are_available tqs s)"

definition ingredients_are_available :: "PizzaType \<Rightarrow> db \<Rightarrow> bool" where
  "ingredients_are_available pizza_type s =
     (if dough_stock s (pt_dough_id pizza_type) = 0 then False
      else toppings_are_available (pt_toppings pizza_type) s)"

text \<open>
  The loops of \<open>reduce_stock_of_ingredients\<close> and \<open>increase_stock_of_ingredients\<close>:
  each topping quantity changes the stock of its topping in turn.
\<close>

fun reduce_toppings :: "PizzaTypeToppingQuantity list \<Rightarrow> (uuid \<Rightarrow> int) \<Rightarrow> (uuid \<Rightarrow> int)" where
  "reduce_toppings [] ts = ts"
| "reduce_toppings (tq # tqs) ts =
     reduce_toppings tqs (ts(tq_topping_id tq := ts (tq_topping_id tq) - tq_quantity tq))"

fun increase_toppings :: "PizzaTypeToppingQuantity list \<Rightarrow> (uuid \<Rightarrow> int) \<Rightarrow> (uuid \<Rightarrow> int)" where
  "increase_toppings [] ts = ts"
| "increase_toppings (tq # tqs) ts =
     increase_toppings tqs (ts(tq_topping_id tq := ts (tq_topping_id tq) + tq_quantity tq))"

definition reduce_stock_of_ingredients :: "PizzaType \<Rightarrow> db \<Rightarrow> db" where
  "reduce_stock_of_ingredients pizza_type s =
     s\<lparr>dough_stock := (dough_stock s)
          (pt_dough_id pizza_type := dough_stock s (pt_dough_id pizza_type) - 1),
        topping_stock := reduce_toppings (pt_toppings pizza_type) (topping_stock s)\<rparr>"

definition increase_stock_of_ingredients :: "PizzaType \<Rightarrow> db \<Rightarrow> db" where
  "increase_stock_of_ingredients pizza_type s =
     s\<lparr>dough_stock := (dough_stock s)
          (pt_dough_id pizza_type := dough_stock s (pt_dough_id pizza_type) + 1),
        topping_stock := increase_toppings (pt_toppings pizza_type) (topping_stock s)\<rparr>"

section \<open>Stock logic for beverages\<close>

text \<open>
  Modelled from the spec: \<open>beverage_is_available\<close> and \<open>change_stock_of_beverage\<close> of
  \<open>order/stock_logic/stock_beverage_crud.py\<close>, which is not part of the sources (only
  its callers and its test are). The spec: \<open>beverageAvailable\<close> is true iff
  \<open>beverage.stock \<ge> quantity\<close>; \<open>changeStock\<close> applies \<open>stock += delta\<close>, returns
  failure without mutation if the resulting stock would go below zero, otherwise
  commits and returns success. A beverage that does not exist is reported as failure.
\<close>

definition beverage_is_available :: "uuid \<Rightarrow> int \<Rightarrow> db \<Rightarrow> bool" where
  "beverage_is_available beverage_id amount s =
     (case beverages s beverage_id of
        None \<Rightarrow> False
      | Some beverage \<Rightarrow> amount \<le> beverage_stock beverage)"

definition change_stock_of_beverage :: "uuid \<Rightarrow> int \<Rightarrow> db \<Rightarrow> bool \<times> db" where
  "change_stock_of_beverage beverage_id change s =
     (case beverages s beverage_id of
        None \<Rightarrow> (False, s)
      | Some beverage \<Rightarrow>
          (if beverage_stock beverage + change < 0 then (False, s)
           else (True, s\<lparr>beverages := (beverages s)
                   (beverage_id \<mapsto> beverage\<lparr>beverage_stock := beverage_stock beverage + change\<rparr>)\<rparr>)))"

section \<open>Order CRUD\<close>

text \<open>
  \<open>create_order\<close> of \<open>order/crud.py\<close>. The address row it creates through
  \<open>create_address\<close> (not part of the sources) plays no part in stock or price and is
  left out; the schema is reduced to the user identifier.
\<close>

definition crud_create_order :: "uuid \<Rightarrow> db \<Rightarrow> Order \<times> db" where
  "crud_create_order schema_user_id s =
     (let order = \<lparr>order_id = next_uuid s, order_user_id = schema_user_id,
                    order_status = TRANSMITTED\<rparr>
      in (order, s\<lparr>orders := orders s @ [order], next_uuid := Suc (next_uuid s)\<rparr>))"

definition crud_get_order_by_id :: "uuid \<Rightarrow> db \<Rightarrow> Order option" where
  "crud_get_order_by_id oid s = find (\<lambda>order. order_id order = oid) (orders s)"

text \<open>
  Modelled from the spec: the cascade of \<open>db.delete(order)\<close>, declared on the
  relationships of \<open>Order\<close> in \<open>app.database.models\<close>, which is not part of the
  sources. The spec: pizzas and beverage quantities are owned by the order and are
  destroyed when the order is destroyed.
\<close>

definition crud_delete_order_by_id :: "uuid \<Rightarrow> db \<Rightarrow> db" where
  "crud_delete_order_by_id oid s =
     (case crud_get_order_by_id oid s of
        Some entity \<Rightarrow>
          s\<lparr>orders := filter (\<lambda>order. order_id order \<noteq> order_id entity) (orders s),
             pizzas := filter (\<lambda>pizza. pizza_order_id pizza \<noteq> Some (order_id entity)) (pizzas s),
             order_beverages :=
               filter (\<lambda>line. obq_order_id line \<noteq> order_id entity) (order_beverages s)\<rparr>
      | None \<Rightarrow> s)"

definition crud_create_pizza :: "PizzaType option \<Rightarrow> db \<Rightarrow> Pizza \<times> db" where
  "crud_create_pizza pizza_type s =
     (let entity = \<lparr>pizza_id = next_uuid s, pizza_order_id = None,
                     pizza_type_id = (case pizza_type of None \<Rightarrow> None
                                      | Some pt \<Rightarrow> Some (pt_id pt))\<rparr>
      in (entity, s\<lparr>pizzas := pizzas s @ [entity], next_uuid := Suc (next_uuid s)\<rparr>))"

text \<open>\<open>order.pizzas.append(pizza)\<close> sets the order of the pizza row just created.\<close>

definition crud_add_pizza_to_order :: "Order \<Rightarrow> PizzaType option \<Rightarrow> db \<Rightarrow> Pizza \<times> db" where
  "crud_add_pizza_to_order order pizza_type s =
     (let (pizza, s1) = crud_create_pizza pizza_type s;
          pizza' = pizza\<lparr>pizza_order_id := Some (order_id order)\<rparr>
      in (pizza', s1\<lparr>pizzas := map (\<lambda>p. if pizza_id p = pizza_id pizza then pizza' else p)
                                    (pizzas s1)\<rparr>))"

definition crud_get_pizza_by_id :: "uuid \<Rightarrow> db \<Rightarrow> Pizza option" where
  "crud_get_pizza_by_id pid s = find (\<lambda>pizza. pizza_id pizza = pid) (pizzas s)"

definition crud_delete_pizza_from_order :: "Order \<Rightarrow> uuid \<Rightarrow> db \<Rightarrow> bool \<times> db" where
  "crud_delete_pizza_from_order order pid s =
     (case find (\<lambda>pizza. pizza_order_id pizza = Some (order_id order) \<and> pizza_id pizza = pid)
             (pizzas s) of
        Some entity \<Rightarrow>
          (True, s\<lparr>pizzas := filter (\<lambda>pizza. pizza_id pizza \<noteq> pizza_id entity) (pizzas s)\<rparr>)
      | None \<Rightarrow> (False, s))"

definition crud_create_beverage_quantity ::
  "Order \<Rightarrow> uuid \<times> int \<Rightarrow> db \<Rightarrow> OrderBeverageQuantity \<times> db" where
  "crud_create_beverage_quantity order schema s =
     (let entity = \<lparr>obq_order_id = order_id order, obq_beverage_id = fst schema,
                     obq_quantity = snd schema\<rparr>
      in (entity, s\<lparr>order_beverages := order_beverages s @ [entity]\<rparr>))"

definition crud_get_beverage_quantity_by_id ::
  "uuid \<Rightarrow> uuid \<Rightarrow> db \<Rightarrow> OrderBeverageQuantity option" where
  "crud_get_beverage_quantity_by_id oid beverage_id s =
     find (\<lambda>line. obq_beverage_id line = beverage_id \<and> obq_order_id line = oid)
       (order_beverages s)"

definition crud_update_beverage_quantity_of_order ::
  "uuid \<Rightarrow> uuid \<Rightarrow> int \<Rightarrow> db \<Rightarrow> OrderBeverageQuantity option \<times> db" where
  "crud_update_beverage_quantity_of_order oid beverage_id new_quantity s =
     (case find (\<lambda>line. oid = obq_order_id line \<and> beverage_id = obq_beverage_id line)
             (order_beverages s) of
        Some order_beverage \<Rightarrow>
          (Some (order_beverage\<lparr>obq_quantity := new_quantity\<rparr>),
           s\<lparr>order_beverages :=
               map (\<lambda>line. if obq_order_id line = obq_order_id order_beverage
                              \<and> obq_beverage_id line = obq_beverage_id order_beverage
                            then line\<lparr>obq_quantity := new_quantity\<rparr> else line)
                 (order_beverages s)\<rparr>)
      | None \<Rightarrow> (None, s))"

definition crud_delete_beverage_from_order :: "uuid \<Rightarrow> uuid \<Rightarrow> db \<Rightarrow> bool \<times> db" where
  "crud_delete_beverage_from_order oid beverage_id s =
     (case find (\<lambda>line. oid = obq_order_id line \<and> beverage_id = obq_beverage_id line)
             (order_beverages s) of
        Some entity \<Rightarrow>
          (True, s\<lparr>order_beverages :=
                     filter (\<lambda>line. \<not> (obq_order_id line = obq_order_id entity
                                        \<and> obq_beverage_id line = obq_beverage_id entity))
                       (order_beverages s)\<rparr>)
      | None \<Rightarrow> (False, s))"

subsection \<open>Price of an order\<close>

text \<open>
  The two queries of \<open>get_price_of_order\<close>. Both are inner joins: a beverage line
  yields a row when its beverage and its order exist, a pizza yields a row when its
  pizza type and its order exist; the rows are then restricted to the given order.
\<close>

definition beverage_price_rows :: "uuid \<Rightarrow> db \<Rightarrow> (rat \<times> int) list" where
  "beverage_price_rows oid s =
     concat (map (\<lambda>line.
                    case beverages s (obq_beverage_id line) of
                      None \<Rightarrow> []
                    | Some beverage \<Rightarrow>
                        (case crud_get_order_by_id (obq_order_id line) s of
                           None \<Rightarrow> []
                         | Some order \<Rightarrow>
                             if order_id order = oid
                             then [(beverage_price beverage, obq_quantity line)] else []))
               (order_beverages s))"

definition get_pizza_type_by_id :: "uuid \<Rightarrow> db \<Rightarrow> PizzaType option" where
  "get_pizza_type_by_id ptid s = find (\<lambda>pt. pt_id pt = ptid) (pizza_types s)"

text \<open>The relationship \<open>pizza.pizza_type\<close>.\<close>

definition pizza_type_of :: "Pizza \<Rightarrow> db \<Rightarrow> PizzaType option" where
  "pizza_type_of pizza s =
     (case pizza_type_id pizza of None \<Rightarrow> None | Some ptid \<Rightarrow> get_pizza_type_by_id ptid s)"

definition pizza_price_rows :: "uuid \<Rightarrow> db \<Rightarrow> rat list" where
  "pizza_price_rows oid s =
     concat (map (\<lambda>pizza.
                    case pizza_type_of pizza s of
                      None \<Rightarrow> []
                    | Some pizza_type \<Rightarrow>
                        (case pizza_order_id pizza of
                           None \<Rightarrow> []
                         | Some poid \<Rightarrow>
                             (case crud_get_order_by_id poid s of
                                None \<Rightarrow> []
                              | Some order \<Rightarrow>
                                  if order_id order = oid then [pt_price pizza_type] else [])))
               (pizzas s))"

text \<open>SQL \<open>SUM\<close>: \<open>NULL\<close> (Python \<open>None\<close>) over no rows.\<close>

definition func_sum :: "rat list \<Rightarrow> rat option" where
  "func_sum rows = (if rows = [] then None else Some (sum_list rows))"

text \<open>
  The accumulation loop over the beverage rows starts from 0; the pizza sum is added
  when it is truthy, that is neither \<open>None\<close> nor zero.
\<close>

definition crud_get_price_of_order :: "uuid \<Rightarrow> db \<Rightarrow> rat" where
  "crud_get_price_of_order oid s =
     (let price_beverage =
            foldl (\<lambda>acc row. acc + fst row * of_int (snd row)) 0 (beverage_price_rows oid s);
          price_pizza = func_sum (pizza_price_rows oid s);
          total_price = price_beverage
      in (case price_pizza of
            None \<Rightarrow> total_price
          | Some p \<Rightarrow> if p \<noteq> 0 then total_price + p else total_price))"

subsection \<open>Orders by status\<close>

definition crud_get_orders_by_statuses :: "OrderStatus list option \<Rightarrow> db \<Rightarrow> Order list" where
  "crud_get_orders_by_statuses statuses s =
     (case statuses of
        None \<Rightarrow> orders s
      | Some sts \<Rightarrow>
          if sts \<noteq> [] \<and> length sts > 0
          then filter (\<lambda>order. order_status order \<in> set sts) (orders s)
          else orders s)"

section \<open>Order endpoints\<close>

text \<open>The relationships \<open>order.pizzas\<close> and \<open>order.beverages\<close>.\<close>

definition order_pizzas :: "Order \<Rightarrow> db \<Rightarrow> Pizza list" where
  "order_pizzas order s =
     filter (\<lambda>pizza. pizza_order_id pizza = Some (order_id order)) (pizzas s)"

definition order_beverage_lines :: "Order \<Rightarrow> db \<Rightarrow> OrderBeverageQuantity list" where
  "order_beverage_lines order s =
     filter (\<lambda>line. obq_order_id line = order_id order) (order_beverages s)"

subsection \<open>Creating an order, with or without a template\<close>

text \<open>
  The two copy loops of \<open>create_order\<close>. Each returns the response that ends the
  request early, or \<open>None\<close> when the loop ran to its end. A template pizza without a
  pizza type makes \<open>ingredients_are_available\<close> fail on \<open>None\<close>.
\<close>

fun copy_pizzas :: "Pizza list \<Rightarrow> Order \<Rightarrow> db \<Rightarrow> response option \<times> db" where
  "copy_pizzas [] new_order s = (None, s)"
| "copy_pizzas (pizza # rest) new_order s =
     (case pizza_type_of pizza s of
        None \<Rightarrow> (Some UncaughtError, s)
      | Some pizza_type \<Rightarrow>
          if \<not> ingredients_are_available pizza_type s
          then (Some (HTTPException 409), crud_delete_order_by_id (order_id new_order) s)
          else copy_pizzas rest new_order
                 (reduce_stock_of_ingredients pizza_type
                    (snd (crud_add_pizza_to_order new_order (Some pizza_type) s))))"

fun copy_beverages :: "OrderBeverageQuantity list \<Rightarrow> Order \<Rightarrow> db \<Rightarrow> response option \<times> db" where
  "copy_beverages [] new_order s = (None, s)"
| "copy_beverages (beverage_quantity # rest) new_order s =
     (let schema = (obq_beverage_id beverage_quantity, obq_quantity beverage_quantity);
          (changed, s1) = change_stock_of_beverage (obq_beverage_id beverage_quantity)
                            (- obq_quantity beverage_quantity) s
      in if \<not> changed
         then (Some (HTTPException 409), crud_delete_order_by_id (order_id new_order) s1)
         else copy_beverages rest new_order
                (snd (crud_create_beverage_quantity new_order schema s1)))"

definition create_order :: "uuid \<Rightarrow> uuid option \<Rightarrow> db \<Rightarrow> response \<times> db" where
  "create_order schema_user_id copy_order_id s =
     (if schema_user_id \<notin> set (users s) then (HTTPException 404, s)
      else
        let (new_order, s1) = crud_create_order schema_user_id s
        in case copy_order_id of
             None \<Rightarrow> (ReturnOrder (order_id new_order), s1)
           | Some cid \<Rightarrow>
               (case crud_get_order_by_id cid s1 of
                  None \<Rightarrow> (HTTPException 404, crud_delete_order_by_id (order_id new_order) s1)
                | Some copy_order \<Rightarrow>
                    (case copy_pizzas (order_pizzas copy_order s1) new_order s1 of
                       (Some r, s2) \<Rightarrow> (r, s2)
                     | (None, s2) \<Rightarrow>
                         (case copy_beverages (order_beverage_lines copy_order s2) new_order s2 of
                            (Some r, s3) \<Rightarrow> (r, s3)
                          | (None, s3) \<Rightarrow> (ReturnOrder (order_id new_order), s3)))))"

subsection \<open>Deleting an order\<close>

text \<open>
  The two restoring loops of \<open>delete_order\<close>. A pizza without a pizza type makes
  \<open>increase_stock_of_ingredients\<close> fail on \<open>None\<close>; the result of
  \<open>change_stock_of_beverage\<close> is not looked at.
\<close>

fun restore_pizzas :: "Pizza list \<Rightarrow> db \<Rightarrow> response option \<times> db" where
  "restore_pizzas [] s = (None, s)"
| "restore_pizzas (pizza # rest) s =
     (case pizza_type_of pizza s of
        None \<Rightarrow> (Some UncaughtError, s)
      | Some pizza_type \<Rightarrow> restore_pizzas rest (increase_stock_of_ingredients pizza_type s))"

fun restore_beverages :: "OrderBeverageQuantity list \<Rightarrow> db \<Rightarrow> db" where
  "restore_beverages [] s = s"
| "restore_beverages (beverage # rest) s =
     restore_beverages rest
       (snd (change_stock_of_beverage (obq_beverage_id beverage) (obq_quantity beverage) s))"

definition delete_order :: "uuid \<Rightarrow> db \<Rightarrow> response \<times> db" where
  "delete_order oid s =
     (case crud_get_order_by_id oid s of
        None \<Rightarrow> (Response 404, s)
      | Some order \<Rightarrow>
          (case restore_pizzas (order_pizzas order s) s of
             (Some r, s1) \<Rightarrow> (r, s1)
           | (None, s1) \<Rightarrow>
               (Response 204,
                crud_delete_order_by_id oid
                  (restore_beverages (order_beverage_lines order s1) s1))))"

subsection \<open>Pizzas of an order\<close>

definition add_pizza_to_order :: "uuid \<Rightarrow> uuid \<Rightarrow> db \<Rightarrow> response \<times> db" where
  "add_pizza_to_order oid schema_pizza_type_id s =
     (case crud_get_order_by_id oid s of
        None \<Rightarrow> (Response 404, s)
      | Some order \<Rightarrow>
          (case get_pizza_type_by_id schema_pizza_type_id s of
             None \<Rightarrow> (Response 404, s)
           | Some pizza_type \<Rightarrow>
               if \<not> ingredients_are_available pizza_type s then (Response 409, s)
               else
                 let s1 = reduce_stock_of_ingredients pizza_type s;
                     (pizza, s2) = crud_add_pizza_to_order order (Some pizza_type) s1
                 in (ReturnPizza (pizza_id pizza), s2)))"

definition delete_pizza_from_order :: "uuid \<Rightarrow> uuid \<Rightarrow> db \<Rightarrow> response \<times> db" where
  "delete_pizza_from_order oid pid s =
     (case crud_get_order_by_id oid s of
        None \<Rightarrow> (Response 404, s)
      | Some order \<Rightarrow>
          (case crud_get_pizza_by_id pid s of
             None \<Rightarrow> (Response 404, s)
           | Some pizza_entity \<Rightarrow>
               (case pizza_type_of pizza_entity s of
                  None \<Rightarrow> (UncaughtError, s)
                | Some pizza_type \<Rightarrow>
                    let s1 = increase_stock_of_ingredients pizza_type s;
                        (deleted, s2) = crud_delete_pizza_from_order order pid s1
                    in if \<not> deleted then (Response 404, s2) else (Response 200, s2))))"

subsection \<open>Beverage lines of an order\<close>

definition create_order_beverage :: "uuid \<Rightarrow> uuid \<times> int \<Rightarrow> db \<Rightarrow> response \<times> db" where
  "create_order_beverage oid beverage_quantity s =
     (case crud_get_order_by_id oid s of
        None \<Rightarrow> (Response 404, s)
      | Some order \<Rightarrow>
          if snd beverage_quantity \<le> 0 then (HTTPException 422, s)
          else
            (case beverages s (fst beverage_quantity) of
               None \<Rightarrow> (HTTPException 404, s)
             | Some beverage \<Rightarrow>
                 (case crud_get_beverage_quantity_by_id oid (fst beverage_quantity) s of
                    Some beverage_quantity_found \<Rightarrow>
                      (RedirectResponse (obq_order_id beverage_quantity_found) 303, s)
                  | None \<Rightarrow>
                      if \<not> beverage_is_available (fst beverage_quantity) (snd beverage_quantity) s
                      then (HTTPException 409, s)
                      else
                        let s1 = snd (change_stock_of_beverage (fst beverage_quantity)
                                        (- snd beverage_quantity) s);
                            (new_beverage_quantity, s2) =
                              crud_create_beverage_quantity order beverage_quantity s1
                        in (ReturnBeverageQuantity (Some new_beverage_quantity), s2))))"

definition update_beverage_of_order :: "uuid \<Rightarrow> uuid \<times> int \<Rightarrow> db \<Rightarrow> response \<times> db" where
  "update_beverage_of_order oid beverage_quantity s =
     (case crud_get_order_by_id oid s of
        None \<Rightarrow> (Response 404, s)
      | Some order \<Rightarrow>
          if snd beverage_quantity \<le> 0 then (Response 422, s)
          else
            let beverage_id = fst beverage_quantity
            in case crud_get_beverage_quantity_by_id oid beverage_id s of
                 None \<Rightarrow> (HTTPException 404, s)
               | Some order_beverage_quantity \<Rightarrow>
                   let new_quantity = snd beverage_quantity;
                       old_quantity = obq_quantity order_beverage_quantity;
                       (changed, s1) =
                         change_stock_of_beverage beverage_id (old_quantity - new_quantity) s
                   in if \<not> changed then (HTTPException 409, s1)
                      else
                        let (updated_beverage_quantity, s2) =
                              crud_update_beverage_quantity_of_order oid beverage_id new_quantity s1
                        in (ReturnBeverageQuantity updated_beverage_quantity, s2))"

definition delete_beverage_from_order :: "uuid \<Rightarrow> uuid \<Rightarrow> db \<Rightarrow> response \<times> db" where
  "delete_beverage_from_order oid beverage_id s =
     (case crud_get_order_by_id oid s of
        None \<Rightarrow> (Response 404, s)
      | Some order \<Rightarrow>
          (case crud_get_beverage_quantity_by_id oid beverage_id s of
             None \<Rightarrow> (HTTPException 404, s)
           | Some order_beverage \<Rightarrow>
               let s1 = snd (change_stock_of_beverage beverage_id (obq_quantity order_beverage) s);
                   s2 = snd (crud_delete_beverage_from_order oid beverage_id s1)
               in (Response 204, s2)))"

subsection \<open>Price endpoint\<close>

definition get_price_of_order :: "uuid \<Rightarrow> db \<Rightarrow> response \<times> db" where
  "get_price_of_order oid s =
     (case crud_get_order_by_id oid s of
        None \<Rightarrow> (Response 404, s)
      | Some order \<Rightarrow> (ReturnPrice (crud_get_price_of_order oid s), s))"

section \<open>Reference notions for the properties\<close>

text \<open>
  The price of an order as the specification words it: the sum over the beverage lines
  of the order of unit price times quantity, plus the sum over the pizzas of the order
  of the price of the referenced pizza type. A line or pizza whose reference does not
  resolve has no price to add.
\<close>

definition priceOf :: "Order \<Rightarrow> db \<Rightarrow> rat" where
  "priceOf order s =
     sum_list (map (\<lambda>line. case beverages s (obq_beverage_id line) of
                              None \<Rightarrow> 0
                            | Some beverage \<Rightarrow> beverage_price beverage * of_int (obq_quantity line))
                 (order_beverage_lines order s))
     + sum_list (map (\<lambda>pizza. case pizza_type_of pizza s of
                                 None \<Rightarrow> 0
                               | Some pizza_type \<Rightarrow> pt_price pizza_type)
                   (order_pizzas order s))"

text \<open>
  The stock that the existing order lines hold: the number of pizzas made of a dough,
  the topping units that the pizzas need, the units of a beverage on beverage lines.
  Stock on the shelf plus stock held by lines is what the consistency of stock and
  lines conserves: a line that was decremented once and not yet restored leaves the
  sum where it was.
\<close>

fun topping_demand :: "PizzaTypeToppingQuantity list \<Rightarrow> uuid \<Rightarrow> int" where
  "topping_demand [] t = 0"
| "topping_demand (tq # tqs) t =
     (if tq_topping_id tq = t then tq_quantity tq else 0) + topping_demand tqs t"

definition dough_use :: "uuid \<Rightarrow> db \<Rightarrow> Pizza \<Rightarrow> int" where
  "dough_use d s pizza =
     (case pizza_type_of pizza s of
        None \<Rightarrow> 0
      | Some pizza_type \<Rightarrow> if pt_dough_id pizza_type = d then 1 else 0)"

definition topping_use :: "uuid \<Rightarrow> db \<Rightarrow> Pizza \<Rightarrow> int" where
  "topping_use t s pizza =
     (case pizza_type_of pizza s of
        None \<Rightarrow> 0
      | Some pizza_type \<Rightarrow> topping_demand (pt_toppings pizza_type) t)"

definition stock_of :: "Beverage option \<Rightarrow> int" where
  "stock_of v = (case v of None \<Rightarrow> 0 | Some beverage \<Rightarrow> beverage_stock beverage)"

definition dough_in_orders :: "uuid \<Rightarrow> db \<Rightarrow> int" where
  "dough_in_orders d s = sum_list (map (dough_use d s) (pizzas s))"

definition topping_in_orders :: "uuid \<Rightarrow> db \<Rightarrow> int" where
  "topping_in_orders t s = sum_list (map (topping_use t s) (pizzas s))"

definition beverage_in_orders :: "uuid \<Rightarrow> db \<Rightarrow> int" where
  "beverage_in_orders b s =
     sum_list (map obq_quantity (filter (\<lambda>line. obq_beverage_id line = b) (order_beverages s)))"

definition dough_ledger :: "uuid \<Rightarrow> db \<Rightarrow> int" where
  "dough_ledger d s = dough_stock s d + dough_in_orders d s"

definition topping_ledger :: "uuid \<Rightarrow> db \<Rightarrow> int" where
  "topping_ledger t s = topping_stock s t + topping_in_orders t s"

definition beverage_ledger :: "uuid \<Rightarrow> db \<Rightarrow> int" where
  "beverage_ledger b s = stock_of (beverages s b) + beverage_in_orders b s"

text \<open>The composite key of a beverage line.\<close>

definition line_key :: "OrderBeverageQuantity \<Rightarrow> uuid \<times> uuid" where
  "line_key line = (obq_order_id line, obq_beverage_id line)"

section \<open>Example states\<close>

text \<open>
  A shop with one pizza type (dough 1, two units of topping 1, price 12.99) and one
  beverage (price 3.50). Order 1 holds one pizza and a line of three beverages, order 2
  is empty.
\<close>

definition margherita :: PizzaType where
  "margherita = \<lparr>pt_id = 1, pt_price = 1299 / 100, pt_dough_id = 1,
                  pt_toppings = [\<lparr>tq_topping_id = 1, tq_quantity = 2\<rparr>]\<rparr>"

definition cola :: Beverage where
  "cola = \<lparr>beverage_price = 7 / 2, beverage_stock = 7\<rparr>"

definition ordered_db :: db where
  "ordered_db =
     \<lparr>dough_stock = (\<lambda>_. 0)(1 := 5), topping_stock = (\<lambda>_. 0)(1 := 10),
      beverages = [1 \<mapsto> cola], pizza_types = [margherita], users = [1],
      orders = [\<lparr>order_id = 1, order_user_id = 1, order_status = PREPARING\<rparr>,
                \<lparr>order_id = 2, order_user_id = 1, order_status = TRANSMITTED\<rparr>],
      pizzas = [\<lparr>pizza_id = 3, pizza_order_id = Some 1, pizza_type_id = Some 1\<rparr>],
      order_beverages = [\<lparr>obq_order_id = 1, obq_beverage_id = 1, obq_quantity = 3\<rparr>],
      next_uuid = 4\<rparr>"

text \<open>The same shop with only two units of the beverage left.\<close>

definition scarce_beverage_db :: db where
  "scarce_beverage_db = ordered_db\<lparr>beverages := [1 \<mapsto> cola\<lparr>beverage_stock := 2\<rparr>]\<rparr>"

text \<open>The same shop where order 1 holds two pizzas and one unit of dough is left.\<close>

definition scarce_dough_db :: db where
  "scarce_dough_db =
     ordered_db\<lparr>dough_stock := (\<lambda>_. 0)(1 := 1),
                pizzas := [\<lparr>pizza_id = 3, pizza_order_id = Some 1, pizza_type_id = Some 1\<rparr>,
                           \<lparr>pizza_id = 5, pizza_order_id = Some 1, pizza_type_id = Some 1\<rparr>],
                next_uuid := 6\<rparr>"

text \<open>The same shop with one unit of the topping left.\<close>

definition scarce_topping_db :: db where
  "scarce_topping_db = ordered_db\<lparr>topping_stock := (\<lambda>_. 0)(1 := 1)\<rparr>"

section \<open>Auxiliary facts\<close>


lemma find_order_id:
  "find (\<lambda>order. order_id order = oid) os = Some order \<Longrightarrow> order_id order = oid"
  by (induction os) (auto split: if_splits)

lemma get_order_by_id_Some:
  "crud_get_order_by_id oid s = Some order \<Longrightarrow> order_id order = oid"
  unfolding crud_get_order_by_id_def by (rule find_order_id)

lemma joined_order_iff:
  assumes "crud_get_order_by_id oid s = Some order"
  shows "(case crud_get_order_by_id x s of None \<Rightarrow> [] | Some order' \<Rightarrow>
            if order_id order' = oid then [v] else []) = (if x = oid then [v] else [])"
  using assms get_order_by_id_Some[of x s]
  by (auto split: option.splits)

lemma foldl_price_sum:
  "foldl (\<lambda>acc row. acc + fst row * of_int (snd row)) a rows
     = a + sum_list (map (\<lambda>row. fst row * (of_int (snd row) :: rat)) rows)"
  by (induction rows arbitrary: a) (simp_all add: algebra_simps)

lemma beverage_rows_sum:
  assumes "crud_get_order_by_id oid s = Some order"
  shows "sum_list (map (\<lambda>row. fst row * (of_int (snd row) :: rat))
           (concat (map (\<lambda>line.
                    case beverages s (obq_beverage_id line) of
                      None \<Rightarrow> []
                    | Some beverage \<Rightarrow>
                        (case crud_get_order_by_id (obq_order_id line) s of
                           None \<Rightarrow> []
                         | Some order \<Rightarrow>
                             if order_id order = oid
                             then [(beverage_price beverage, obq_quantity line)] else [])) ls)))
       = sum_list (map (\<lambda>line. case beverages s (obq_beverage_id line) of
                              None \<Rightarrow> 0
                            | Some beverage \<Rightarrow> beverage_price beverage * of_int (obq_quantity line))
                 (filter (\<lambda>line. obq_order_id line = oid) ls))"
  by (induction ls) (auto simp: joined_order_iff[OF assms] split: option.splits)

lemma pizza_rows_sum:
  assumes "crud_get_order_by_id oid s = Some order"
  shows "sum_list
           (concat (map (\<lambda>pizza.
                    case pizza_type_of pizza s of
                      None \<Rightarrow> []
                    | Some pizza_type \<Rightarrow>
                        (case pizza_order_id pizza of
                           None \<Rightarrow> []
                         | Some poid \<Rightarrow>
                             (case crud_get_order_by_id poid s of
                                None \<Rightarrow> []
                              | Some order \<Rightarrow>
                                  if order_id order = oid then [pt_price pizza_type] else []))) ps))
       = sum_list (map (\<lambda>pizza. case pizza_type_of pizza s of
                                 None \<Rightarrow> 0
                               | Some pizza_type \<Rightarrow> pt_price pizza_type)
                   (filter (\<lambda>pizza. pizza_order_id pizza = Some oid) ps))"
  by (induction ps) (auto simp: joined_order_iff[OF assms] split: option.splits)

lemma crud_get_price_of_order_eq:
  assumes "crud_get_order_by_id oid s = Some order"
  shows "crud_get_price_of_order oid s = priceOf order s"
proof -
  have oid: "order_id order = oid" using assms by (rule get_order_by_id_Some)
  have b: "foldl (\<lambda>acc row. acc + fst row * of_int (snd row)) 0 (beverage_price_rows oid s)
            = sum_list (map (\<lambda>line. case beverages s (obq_beverage_id line) of
                              None \<Rightarrow> 0
                            | Some beverage \<Rightarrow> beverage_price beverage * of_int (obq_quantity line))
                 (order_beverage_lines order s))"
    unfolding foldl_price_sum beverage_price_rows_def order_beverage_lines_def oid
    by (simp add: beverage_rows_sum[OF assms])
  have p: "sum_list (pizza_price_rows oid s)
            = sum_list (map (\<lambda>pizza. case pizza_type_of pizza s of
                                 None \<Rightarrow> 0
                               | Some pizza_type \<Rightarrow> pt_price pizza_type)
                   (order_pizzas order s))"
    unfolding pizza_price_rows_def order_pizzas_def oid
    by (rule pizza_rows_sum[OF assms])
  show ?thesis
    unfolding crud_get_price_of_order_def priceOf_def Let_def b p[symmetric] func_sum_def
    by simp
qed

lemma pizza_rows_empty:
  assumes "crud_get_order_by_id oid s = Some order"
    and "filter (\<lambda>pizza. pizza_order_id pizza = Some oid) ps = []"
  shows "concat (map (\<lambda>pizza.
                    case pizza_type_of pizza s of
                      None \<Rightarrow> []
                    | Some pizza_type \<Rightarrow>
                        (case pizza_order_id pizza of
                           None \<Rightarrow> []
                         | Some poid \<Rightarrow>
                             (case crud_get_order_by_id poid s of
                                None \<Rightarrow> []
                              | Some order \<Rightarrow>
                                  if order_id order = oid then [pt_price pizza_type] else []))) ps)
         = []"
  using assms(2)
  by (induction ps) (auto simp: joined_order_iff[OF assms(1)] split: option.splits if_splits)

lemma find_map_preserved:
  assumes "\<And>x. P (f x) = P x"
  shows "find P (map f xs) = map_option f (find P xs)"
  using assms by (induction xs) auto


lemmas example_defs =
  ordered_db_def scarce_beverage_db_def scarce_dough_db_def scarce_topping_db_def
  margherita_def cola_def

lemmas crud_defs =
  crud_create_order_def crud_get_order_by_id_def crud_delete_order_by_id_def
  crud_create_pizza_def crud_add_pizza_to_order_def crud_get_pizza_by_id_def
  crud_delete_pizza_from_order_def crud_create_beverage_quantity_def
  crud_get_beverage_quantity_by_id_def crud_update_beverage_quantity_of_order_def
  crud_delete_beverage_from_order_def get_pizza_type_by_id_def pizza_type_of_def
  order_pizzas_def order_beverage_lines_def

lemmas stock_defs =
  ingredients_are_available_def reduce_stock_of_ingredients_def
  increase_stock_of_ingredients_def beverage_is_available_def change_stock_of_beverage_def

lemmas ledger_defs =
  dough_ledger_def topping_ledger_def beverage_ledger_def
  dough_in_orders_def topping_in_orders_def beverage_in_orders_def
  dough_use_def topping_use_def stock_of_def

section \<open>Stock ledger\<close>



text \<open>
  The endpoints that write the dough stock keep it from going below zero: a pizza is
  only taken from stock after the check has found dough, and the other writes add to
  the stock. So the stock of every dough is non-negative in every state that these
  calls reach from a shop whose dough stock is non-negative.
\<close>

lemma crud_add_pizza_to_order_dough_stock:
  "dough_stock (snd (crud_add_pizza_to_order order pizza_type s)) = dough_stock s"
  by (simp add: crud_add_pizza_to_order_def crud_create_pizza_def Let_def)

lemma crud_delete_order_by_id_dough_stock:
  "dough_stock (crud_delete_order_by_id oid s) = dough_stock s"
  by (simp add: crud_delete_order_by_id_def split: option.splits)

lemma reduce_keeps_dough_stock_nonneg:
  assumes "\<forall>d. 0 \<le> dough_stock s d" and "ingredients_are_available pt s"
    and "dough_stock s0 = dough_stock s"
  shows "0 \<le> dough_stock (reduce_stock_of_ingredients pt s0) d"
proof -
  have "dough_stock s (pt_dough_id pt) \<noteq> 0"
    using assms(2) by (simp add: ingredients_are_available_def split: if_splits)
  moreover have "0 \<le> dough_stock s (pt_dough_id pt)" "0 \<le> dough_stock s d"
    using assms(1) by simp_all
  ultimately show ?thesis by (simp add: reduce_stock_of_ingredients_def assms(3))
qed

lemma increase_keeps_dough_stock_nonneg:
  "\<forall>d. 0 \<le> dough_stock s d \<Longrightarrow> 0 \<le> dough_stock (increase_stock_of_ingredients pt s) d"
  by (simp add: increase_stock_of_ingredients_def)

lemma add_pizza_to_order_keeps_dough_stock_nonneg:
  assumes "\<forall>d. 0 \<le> dough_stock s d"
  shows "0 \<le> dough_stock (snd (add_pizza_to_order oid ptid s)) d"
  using assms reduce_keeps_dough_stock_nonneg[OF assms _ refl]
  by (auto simp: add_pizza_to_order_def Let_def case_prod_beta
      crud_add_pizza_to_order_dough_stock split: option.splits)

lemma delete_pizza_from_order_keeps_dough_stock_nonneg:
  assumes "\<forall>d. 0 \<le> dough_stock s d"
  shows "0 \<le> dough_stock (snd (delete_pizza_from_order oid pid s)) d"
  using assms increase_keeps_dough_stock_nonneg[OF assms]
  by (auto simp: delete_pizza_from_order_def Let_def case_prod_beta
      crud_delete_pizza_from_order_def split: option.splits)

lemma copy_pizzas_keeps_dough_stock_nonneg:
  assumes "\<forall>d. 0 \<le> dough_stock s d"
  shows "0 \<le> dough_stock (snd (copy_pizzas ps new_order s)) d"
  using assms
proof (induction ps arbitrary: s)
  case Nil
  then show ?case by simp
next
  case (Cons p ps)
  show ?case
  proof (cases "pizza_type_of p s")
    case None
    then show ?thesis using Cons.prems by simp
  next
    case (Some pt)
    show ?thesis
    proof (cases "ingredients_are_available pt s")
      case False
      then show ?thesis
        using Some Cons.prems by (simp add: crud_delete_order_by_id_dough_stock)
    next
      case True
      let ?s1 = "reduce_stock_of_ingredients pt
                   (snd (crud_add_pizza_to_order new_order (Some pt) s))"
      have "\<forall>d. 0 \<le> dough_stock ?s1 d"
        using reduce_keeps_dough_stock_nonneg[OF Cons.prems True
            crud_add_pizza_to_order_dough_stock]
        by blast
      from Cons.IH[OF this] show ?thesis using Some True by simp
    qed
  qed
qed

lemma copy_beverages_dough_stock:
  "dough_stock (snd (copy_beverages ls new_order s)) = dough_stock s"
proof (induction ls arbitrary: s)
  case Nil
  then show ?case by simp
next
  case (Cons l ls)
  have c: "dough_stock (snd (change_stock_of_beverage b n s)) = dough_stock s" for b n
    by (simp add: change_stock_of_beverage_def split: option.splits)
  show ?case
    using Cons.IH c[of "obq_beverage_id l" "- obq_quantity l"]
    by (simp add: case_prod_beta crud_delete_order_by_id_dough_stock
        crud_create_beverage_quantity_def Let_def)
qed

lemma create_order_keeps_dough_stock_nonneg:
  assumes "\<forall>d. 0 \<le> dough_stock s d"
  shows "0 \<le> dough_stock (snd (create_order uid copy_order_id s)) d"
proof -
  let ?new = "\<lparr>order_id = next_uuid s, order_user_id = uid, order_status = TRANSMITTED\<rparr>"
  let ?s1 = "s\<lparr>orders := orders s @ [?new], next_uuid := Suc (next_uuid s)\<rparr>"
  have c: "crud_create_order uid s = (?new, ?s1)" by (simp add: crud_create_order_def Let_def)
  have n1: "\<forall>d. 0 \<le> dough_stock ?s1 d" using assms by simp
  show ?thesis
  proof (cases "uid \<in> set (users s)")
    case False
    then show ?thesis using assms by (simp add: create_order_def)
  next
    case True
    show ?thesis
    proof (cases copy_order_id)
      case None
      then show ?thesis using True c assms by (simp add: create_order_def)
    next
      case (Some cid)
      show ?thesis
      proof (cases "crud_get_order_by_id cid ?s1")
        case None
        then show ?thesis
          using True c Some assms
          by (simp add: create_order_def crud_delete_order_by_id_dough_stock)
      next
        case (Some copy_order)
        obtain r s2 where p: "copy_pizzas (order_pizzas copy_order ?s1) ?new ?s1 = (r, s2)"
          by (cases "copy_pizzas (order_pizzas copy_order ?s1) ?new ?s1")
        have n2: "0 \<le> dough_stock s2 d"
          using copy_pizzas_keeps_dough_stock_nonneg[OF n1,
              of "order_pizzas copy_order ?s1" ?new d] p
          by simp
        obtain r' s3 where b: "copy_beverages (order_beverage_lines copy_order s2) ?new s2 = (r', s3)"
          by (cases "copy_beverages (order_beverage_lines copy_order s2) ?new s2")
        have "dough_stock s3 = dough_stock s2"
          using copy_beverages_dough_stock[of "order_beverage_lines copy_order s2" ?new s2] b
          by simp
        then show ?thesis
          using True c \<open>copy_order_id = Some cid\<close> Some p b n2
          by (cases r; cases r') (simp_all add: create_order_def)
      qed
    qed
  qed
qed

lemma restore_pizzas_keeps_dough_stock_nonneg:
  assumes "\<forall>d. 0 \<le> dough_stock s d"
  shows "0 \<le> dough_stock (snd (restore_pizzas ps s)) d"
  using assms
proof (induction ps arbitrary: s)
  case Nil
  then show ?case by simp
next
  case (Cons p ps)
  show ?case
  proof (cases "pizza_type_of p s")
    case None
    then show ?thesis using Cons.prems by simp
  next
    case (Some pt)
    have "\<forall>d. 0 \<le> dough_stock (increase_stock_of_ingredients pt s) d"
      using increase_keeps_dough_stock_nonneg[OF Cons.prems] by blast
    from Cons.IH[OF this] show ?thesis using Some by simp
  qed
qed

lemma restore_beverages_dough_stock:
  "dough_stock (restore_beverages ls s) = dough_stock s"
proof (induction ls arbitrary: s)
  case Nil
  then show ?case by simp
next
  case (Cons l ls)
  have "dough_stock (snd (change_stock_of_beverage (obq_beverage_id l) (obq_quantity l) s))
          = dough_stock s"
    by (simp add: change_stock_of_beverage_def split: option.splits)
  then show ?case using Cons.IH by simp
qed

lemma delete_order_keeps_dough_stock_nonneg:
  assumes "\<forall>d. 0 \<le> dough_stock s d"
  shows "0 \<le> dough_stock (snd (delete_order oid s)) d"
proof (cases "crud_get_order_by_id oid s")
  case None
  then show ?thesis using assms by (simp add: delete_order_def)
next
  case (Some order)
  obtain r s1 where r: "restore_pizzas (order_pizzas order s) s = (r, s1)"
    by (cases "restore_pizzas (order_pizzas order s) s")
  have "0 \<le> dough_stock s1 d"
    using restore_pizzas_keeps_dough_stock_nonneg[OF assms, of "order_pizzas order s" d] r
    by simp
  then show ?thesis
    using Some r
    by (cases r) (simp_all add: delete_order_def crud_delete_order_by_id_dough_stock
        restore_beverages_dough_stock)
qed

text \<open>
  Claim C5. For a beverage whose stock is not negative, \<open>change_stock_of_beverage\<close>
  with a negative change larger in absolute value than the stock leaves the database
  unchanged and reports failure; with a change whose absolute value is at most the
  stock, or that is not negative, it sets the stock to stock plus change, touches
  nothing else and reports success. The stock of the beverage is not negative
  afterwards.
\<close>

theorem change_stock_of_beverage_bounded:
  assumes "beverages s beverage_id = Some beverage" and "0 \<le> beverage_stock beverage"
  shows "(change < 0 \<and> beverage_stock beverage < \<bar>change\<bar> \<longrightarrow>
            change_stock_of_beverage beverage_id change s = (False, s))
       \<and> (\<bar>change\<bar> \<le> beverage_stock beverage \<or> 0 \<le> change \<longrightarrow>
            change_stock_of_beverage beverage_id change s =
              (True, s\<lparr>beverages := (beverages s)(beverage_id \<mapsto>
                         beverage\<lparr>beverage_stock := beverage_stock beverage + change\<rparr>)\<rparr>))
       \<and> (\<forall>b. beverages (snd (change_stock_of_beverage beverage_id change s)) beverage_id = Some b
              \<longrightarrow> 0 \<le> beverage_stock b)"
  using assms by (auto simp: change_stock_of_beverage_def)

theorem change_stock_of_beverage_bounded_witness:
  "beverages ordered_db 1 = Some cola \<and> 0 \<le> beverage_stock cola
 \<and> change_stock_of_beverage 1 (- 9) ordered_db = (False, ordered_db)
 \<and> fst (change_stock_of_beverage 1 (- 3) ordered_db)
 \<and> beverages (snd (change_stock_of_beverage 1 (- 3) ordered_db)) 1
      = Some (cola\<lparr>beverage_stock := 4\<rparr>)
 \<and> fst (change_stock_of_beverage 1 5 ordered_db)
 \<and> beverages (snd (change_stock_of_beverage 1 5 ordered_db)) 1
      = Some (cola\<lparr>beverage_stock := 12\<rparr>)"
proof -
  have b: "beverages ordered_db 1 = Some cola" by (simp add: ordered_db_def)
  have n: "0 \<le> beverage_stock cola" by (simp add: cola_def)
  show ?thesis
    using b n change_stock_of_beverage_bounded [OF b n, of "- 9"]
      change_stock_of_beverage_bounded [OF b n, of "- 3"]
      change_stock_of_beverage_bounded [OF b n, of 5]
    by (simp add: ordered_db_def cola_def)
qed

section \<open>Beverage lines\<close>

text \<open>
  Claim C6. For an order with a beverage line of quantity \<open>old\<close> on an existing
  beverage and a new quantity of at least 1, \<open>update_beverage_of_order\<close> calls
  \<open>change_stock_of_beverage\<close> with \<open>old - new\<close>. When that reports failure the
  endpoint raises 409 and the database, the line included, is as before. Otherwise the
  line is returned and stored with the new quantity and the stock of the beverage has
  changed by exactly \<open>old - new\<close>, no other beverage being touched.
\<close>

theorem update_beverage_of_order_semantics:
  assumes "crud_get_order_by_id oid s = Some order"
    and "crud_get_beverage_quantity_by_id oid beverage_id s = Some line"
    and "1 \<le> new_quantity"
    and "beverages s beverage_id = Some beverage"
  shows "case change_stock_of_beverage beverage_id (obq_quantity line - new_quantity) s of
           (changed, s1) \<Rightarrow>
             if \<not> changed
             then update_beverage_of_order oid (beverage_id, new_quantity) s = (HTTPException 409, s)
             else fst (update_beverage_of_order oid (beverage_id, new_quantity) s)
                    = ReturnBeverageQuantity (Some (line\<lparr>obq_quantity := new_quantity\<rparr>))
                \<and> crud_get_beverage_quantity_by_id oid beverage_id
                     (snd (update_beverage_of_order oid (beverage_id, new_quantity) s))
                    = Some (line\<lparr>obq_quantity := new_quantity\<rparr>)
                \<and> beverages (snd (update_beverage_of_order oid (beverage_id, new_quantity) s))
                    = (beverages s)(beverage_id \<mapsto> beverage\<lparr>beverage_stock :=
                         beverage_stock beverage + (obq_quantity line - new_quantity)\<rparr>)"
proof -
  let ?P = "\<lambda>l. obq_beverage_id l = beverage_id \<and> obq_order_id l = oid"
  let ?Q = "\<lambda>l. oid = obq_order_id l \<and> beverage_id = obq_beverage_id l"
  have PQ: "?Q = ?P" by auto
  have f: "find ?P (order_beverages s) = Some line"
    using assms(2) by (simp add: crud_get_beverage_quantity_by_id_def)
  then have key: "obq_beverage_id line = beverage_id" "obq_order_id line = oid"
    by (auto simp: find_Some_iff)
  let ?upd = "\<lambda>l. if obq_order_id l = oid \<and> obq_beverage_id l = beverage_id
                   then l\<lparr>obq_quantity := new_quantity\<rparr> else l"
  have "find ?P (map ?upd (order_beverages s)) = map_option ?upd (find ?P (order_beverages s))"
    by (rule find_map_preserved) simp
  then have g: "find ?P (map ?upd (order_beverages s)) = Some (line\<lparr>obq_quantity := new_quantity\<rparr>)"
    using f key by simp
  show ?thesis
    using assms(1,3,4) f g key
    by (simp add: update_beverage_of_order_def change_stock_of_beverage_def Let_def PQ
        crud_get_beverage_quantity_by_id_def crud_update_beverage_quantity_of_order_def)
qed

theorem update_beverage_of_order_semantics_witness:
  "crud_get_order_by_id 1 ordered_db
     = Some \<lparr>order_id = 1, order_user_id = 1, order_status = PREPARING\<rparr>
 \<and> crud_get_beverage_quantity_by_id 1 1 ordered_db
     = Some \<lparr>obq_order_id = 1, obq_beverage_id = 1, obq_quantity = 3\<rparr>
 \<and> beverages ordered_db 1 = Some cola
 \<and> update_beverage_of_order 1 (1, 12) ordered_db = (HTTPException 409, ordered_db)
 \<and> crud_get_beverage_quantity_by_id 1 1 (snd (update_beverage_of_order 1 (1, 2) ordered_db))
     = Some \<lparr>obq_order_id = 1, obq_beverage_id = 1, obq_quantity = 2\<rparr>
 \<and> beverages (snd (update_beverage_of_order 1 (1, 2) ordered_db)) 1
     = Some (cola\<lparr>beverage_stock := 8\<rparr>)"
proof -
  have o: "crud_get_order_by_id 1 ordered_db
             = Some \<lparr>order_id = 1, order_user_id = 1, order_status = PREPARING\<rparr>"
    by (simp add: ordered_db_def crud_get_order_by_id_def)
  have l: "crud_get_beverage_quantity_by_id 1 1 ordered_db
             = Some \<lparr>obq_order_id = 1, obq_beverage_id = 1, obq_quantity = 3\<rparr>"
    by (simp add: ordered_db_def crud_get_beverage_quantity_by_id_def)
  have b: "beverages ordered_db 1 = Some cola" by (simp add: ordered_db_def)
  have c12: "change_stock_of_beverage 1 (3 - 12) ordered_db = (False, ordered_db)"
    by (simp add: change_stock_of_beverage_def ordered_db_def cola_def)
  have c2: "fst (change_stock_of_beverage 1 (3 - 2) ordered_db)"
    by (simp add: change_stock_of_beverage_def ordered_db_def cola_def)
  have "update_beverage_of_order 1 (1, 12) ordered_db = (HTTPException 409, ordered_db)"
    using update_beverage_of_order_semantics [OF o l _ b, of 12] c12 by simp
  moreover have
    "crud_get_beverage_quantity_by_id 1 1 (snd (update_beverage_of_order 1 (1, 2) ordered_db))
       = Some \<lparr>obq_order_id = 1, obq_beverage_id = 1, obq_quantity = 2\<rparr>
   \<and> beverages (snd (update_beverage_of_order 1 (1, 2) ordered_db)) 1
       = Some (cola\<lparr>beverage_stock := 8\<rparr>)"
    using update_beverage_of_order_semantics [OF o l _ b, of 2] c2
    by (simp add: cola_def split: prod.splits)
  ultimately show ?thesis using o l b by simp
qed

text \<open>
  Claim C8. \<open>create_order_beverage\<close> on an existing order, with a quantity of at least
  1, an existing beverage and a line already stored for that order and beverage,
  answers with a redirect (303) to the beverage list of the order and leaves the
  database as it was: no line is created and no stock count changes. Whatever its
  arguments, the endpoint never stores a second line for a pair of order and beverage:
  when the keys of the stored lines are distinct before the call, they are distinct
  after it.
\<close>

theorem create_order_beverage_duplicate:
  "(crud_get_order_by_id oid s = Some order \<and> 1 \<le> amount
      \<and> beverages s beverage_id = Some beverage
      \<and> crud_get_beverage_quantity_by_id oid beverage_id s = Some line
    \<longrightarrow> create_order_beverage oid (beverage_id, amount) s = (RedirectResponse oid 303, s))
 \<and> (distinct (map line_key (order_beverages s))
    \<longrightarrow> distinct (map line_key
                    (order_beverages (snd (create_order_beverage oid (beverage_id, amount) s)))))"
proof (intro conjI impI)
  assume a: "crud_get_order_by_id oid s = Some order \<and> 1 \<le> amount
      \<and> beverages s beverage_id = Some beverage
      \<and> crud_get_beverage_quantity_by_id oid beverage_id s = Some line"
  then have "obq_order_id line = oid"
    by (auto simp: crud_get_beverage_quantity_by_id_def find_Some_iff)
  with a show "create_order_beverage oid (beverage_id, amount) s = (RedirectResponse oid 303, s)"
    by (simp add: create_order_beverage_def)
next
  assume d: "distinct (map line_key (order_beverages s))"
  show "distinct (map line_key
                    (order_beverages (snd (create_order_beverage oid (beverage_id, amount) s))))"
  proof (cases "crud_get_order_by_id oid s")
    case None
    then show ?thesis using d by (simp add: create_order_beverage_def)
  next
    case (Some order')
    then have oid: "order_id order' = oid" by (rule get_order_by_id_Some)
    show ?thesis
      using d Some oid
      by (auto simp: create_order_beverage_def crud_get_beverage_quantity_by_id_def
          change_stock_of_beverage_def crud_create_beverage_quantity_def Let_def
          line_key_def find_None_iff image_iff
          split: option.splits if_splits)
  qed
qed

theorem create_order_beverage_duplicate_witness:
  "crud_get_order_by_id 1 ordered_db
     = Some \<lparr>order_id = 1, order_user_id = 1, order_status = PREPARING\<rparr>
 \<and> beverages ordered_db 1 = Some cola
 \<and> crud_get_beverage_quantity_by_id 1 1 ordered_db
     = Some \<lparr>obq_order_id = 1, obq_beverage_id = 1, obq_quantity = 3\<rparr>
 \<and> distinct (map line_key (order_beverages ordered_db))
 \<and> create_order_beverage 1 (1, 5) ordered_db = (RedirectResponse 1 303, ordered_db)
 \<and> distinct (map line_key (order_beverages (snd (create_order_beverage 2 (1, 5) ordered_db))))"
proof -
  have o: "crud_get_order_by_id 1 ordered_db
             = Some \<lparr>order_id = 1, order_user_id = 1, order_status = PREPARING\<rparr>"
    by (simp add: ordered_db_def crud_get_order_by_id_def)
  have l: "crud_get_beverage_quantity_by_id 1 1 ordered_db
             = Some \<lparr>obq_order_id = 1, obq_beverage_id = 1, obq_quantity = 3\<rparr>"
    by (simp add: ordered_db_def crud_get_beverage_quantity_by_id_def)
  have b: "beverages ordered_db 1 = Some cola" by (simp add: ordered_db_def)
  have d: "distinct (map line_key (order_beverages ordered_db))"
    by (simp add: ordered_db_def)
  show ?thesis
    using o l b d
      create_order_beverage_duplicate [of 1 ordered_db _ 5 1 cola]
      create_order_beverage_duplicate [of 2 ordered_db _ 5 1]
    by simp
qed

section \<open>Price and status queries\<close>

text \<open>
  Claim C7. For an existing order, the price endpoint returns the sum over the
  beverage lines of the order of the price of the beverage times the quantity of the
  line, plus the sum over the pizzas of the order of the price of the referenced pizza
  type. The endpoint hands the database back as it received it (no stock count and no
  order content changes), so asking twice gives the same answer.
\<close>

theorem get_price_of_order_formula:
  assumes "crud_get_order_by_id oid s = Some order"
  shows "get_price_of_order oid s = (ReturnPrice (priceOf order s), s)
       \<and> get_price_of_order oid (snd (get_price_of_order oid s)) = get_price_of_order oid s"
  using assms by (simp add: get_price_of_order_def crud_get_price_of_order_eq)

theorem get_price_of_order_formula_witness:
  "crud_get_order_by_id 1 ordered_db
     = Some \<lparr>order_id = 1, order_user_id = 1, order_status = PREPARING\<rparr>
 \<and> get_price_of_order 1 ordered_db = (ReturnPrice (2349 / 100), ordered_db)"
proof -
  have o: "crud_get_order_by_id 1 ordered_db
             = Some \<lparr>order_id = 1, order_user_id = 1, order_status = PREPARING\<rparr>"
    by (simp add: ordered_db_def crud_get_order_by_id_def)
  have "priceOf \<lparr>order_id = 1, order_user_id = 1, order_status = PREPARING\<rparr> ordered_db
          = 2349 / 100"
    by (simp add: priceOf_def order_beverage_lines_def order_pizzas_def pizza_type_of_def
        get_pizza_type_by_id_def example_defs)
  then show ?thesis
    using o get_price_of_order_formula [OF o] by simp
qed

text \<open>
  Claim C10. For an existing order without pizzas and without beverage lines the price
  endpoint returns the number 0, although the sum over the pizza prices has no row and
  is \<open>None\<close>.
\<close>

theorem empty_order_price_zero:
  assumes "crud_get_order_by_id oid s = Some order"
    and "order_pizzas order s = []" and "order_beverage_lines order s = []"
  shows "get_price_of_order oid s = (ReturnPrice 0, s)
       \<and> func_sum (pizza_price_rows oid s) = None"
proof -
  have oid: "order_id order = oid" using assms(1) by (rule get_order_by_id_Some)
  have rows: "pizza_price_rows oid s = []"
    unfolding pizza_price_rows_def
    using assms(2) by (intro pizza_rows_empty[OF assms(1)]) (simp add: order_pizzas_def oid)
  have "crud_get_price_of_order oid s = 0"
    using assms(2,3) by (simp add: crud_get_price_of_order_eq[OF assms(1)] priceOf_def)
  then show ?thesis
    using assms(1) rows by (simp add: get_price_of_order_def func_sum_def)
qed

theorem empty_order_price_zero_witness:
  "crud_get_order_by_id 2 ordered_db
     = Some \<lparr>order_id = 2, order_user_id = 1, order_status = TRANSMITTED\<rparr>
 \<and> get_price_of_order 2 ordered_db = (ReturnPrice 0, ordered_db)
 \<and> func_sum (pizza_price_rows 2 ordered_db) = None"
proof -
  have o: "crud_get_order_by_id 2 ordered_db
             = Some \<lparr>order_id = 2, order_user_id = 1, order_status = TRANSMITTED\<rparr>"
    by (simp add: ordered_db_def crud_get_order_by_id_def)
  have p: "order_pizzas \<lparr>order_id = 2, order_user_id = 1, order_status = TRANSMITTED\<rparr>
             ordered_db = []"
    by (simp add: order_pizzas_def ordered_db_def)
  have l: "order_beverage_lines \<lparr>order_id = 2, order_user_id = 1, order_status = TRANSMITTED\<rparr>
             ordered_db = []"
    by (simp add: order_beverage_lines_def ordered_db_def)
  show ?thesis
    using o empty_order_price_zero [OF o p l] by simp
qed

text \<open>
  Claim C9. \<open>get_orders_by_statuses\<close> returns all orders when no status list or an
  empty one is given; for a list with at least one status it returns exactly the
  orders whose status is in the list, in table order, which is the union over the
  given statuses of the orders with that status.
\<close>

theorem get_orders_by_statuses_filter:
  "(statuses = None \<or> statuses = Some [] \<longrightarrow> crud_get_orders_by_statuses statuses s = orders s)
 \<and> (\<forall>sts. statuses = Some sts \<and> sts \<noteq> [] \<longrightarrow>
        crud_get_orders_by_statuses statuses s
          = filter (\<lambda>order. order_status order \<in> set sts) (orders s)
      \<and> set (crud_get_orders_by_statuses statuses s)
          = (\<Union>st \<in> set sts. {order \<in> set (orders s). order_status order = st}))"
  by (auto simp: crud_get_orders_by_statuses_def)

theorem get_orders_by_statuses_filter_witness:
  "crud_get_orders_by_statuses None ordered_db = orders ordered_db
 \<and> crud_get_orders_by_statuses (Some []) ordered_db = orders ordered_db
 \<and> crud_get_orders_by_statuses (Some [TRANSMITTED, COMPLETED]) ordered_db
     = [\<lparr>order_id = 2, order_user_id = 1, order_status = TRANSMITTED\<rparr>]"
  using get_orders_by_statuses_filter [of None ordered_db]
    get_orders_by_statuses_filter [of "Some []" ordered_db]
    get_orders_by_statuses_filter [of "Some [TRANSMITTED, COMPLETED]" ordered_db]
  by (simp add: ordered_db_def)

section \<open>Stock and order lines together\<close>

subsection \<open>Calls that keep the ledger\<close>

text \<open>
  The ledger of an ingredient or beverage is its stock plus what the existing lines
  hold of it. The calls below leave every ledger where it was: adding a pizza, removing
  a pizza through the order that owns it, creating, updating and deleting a beverage
  line, deleting an order, and creating an order whose copy runs to its end.
\<close>

lemma reduce_toppings_at:
  "reduce_toppings tqs ts t = ts t - topping_demand tqs t"
  by (induction tqs arbitrary: ts) auto

lemma increase_toppings_at:
  "increase_toppings tqs ts t = ts t + topping_demand tqs t"
  by (induction tqs arbitrary: ts) auto

lemma get_pizza_type_by_id_Some:
  "get_pizza_type_by_id ptid s = Some pt \<Longrightarrow> pt_id pt = ptid"
  by (auto simp: get_pizza_type_by_id_def find_Some_iff)

lemma pizza_type_of_Some_id:
  "pizza_type_of p s = Some pt \<Longrightarrow> get_pizza_type_by_id (pt_id pt) s = Some pt"
  using get_pizza_type_by_id_Some
  by (fastforce simp: pizza_type_of_def split: option.splits)

lemma pizza_type_of_cong:
  "pizza_types s' = pizza_types s \<Longrightarrow> pizza_type_of p s' = pizza_type_of p s"
  by (simp add: pizza_type_of_def get_pizza_type_by_id_def split: option.splits)

lemma use_cong:
  assumes "pizza_types s' = pizza_types s"
  shows "dough_use d s' = dough_use d s" and "topping_use t s' = topping_use t s"
  using pizza_type_of_cong[OF assms]
  by (simp_all add: dough_use_def topping_use_def fun_eq_iff)

lemma ledger_cong:
  assumes "dough_stock s' = dough_stock s" "topping_stock s' = topping_stock s"
    "pizzas s' = pizzas s" "pizza_types s' = pizza_types s"
  shows "dough_ledger d s' = dough_ledger d s" "topping_ledger t s' = topping_ledger t s"
  using assms use_cong[OF assms(4)]
  by (simp_all add: dough_ledger_def topping_ledger_def dough_in_orders_def topping_in_orders_def)

lemma beverage_ledger_cong:
  "beverages s' = beverages s \<Longrightarrow> order_beverages s' = order_beverages s
     \<Longrightarrow> beverage_ledger b s' = beverage_ledger b s"
  by (simp add: beverage_ledger_def beverage_in_orders_def)

text \<open>
  One pizza more: the stock falls by what the pizza type needs, the lines hold that
  much more.
\<close>

lemma pizza_added_keeps_ledger:
  assumes "pizza_type_of pizza s = Some pt"
    and "s' = (reduce_stock_of_ingredients pt s)\<lparr>pizzas := pizzas s @ [pizza], next_uuid := n\<rparr>"
  shows "dough_ledger d s' = dough_ledger d s" and "topping_ledger t s' = topping_ledger t s"
    and "beverage_ledger b s' = beverage_ledger b s"
proof -
  have "pizza_types s' = pizza_types s"
    by (simp add: assms(2) reduce_stock_of_ingredients_def)
  note u = use_cong[OF this]
  show "dough_ledger d s' = dough_ledger d s"
    unfolding dough_ledger_def dough_in_orders_def u
    using assms(1) by (simp add: assms(2) reduce_stock_of_ingredients_def dough_use_def)
  show "topping_ledger t s' = topping_ledger t s"
    unfolding topping_ledger_def topping_in_orders_def u
    using assms(1)
    by (simp add: assms(2) reduce_stock_of_ingredients_def topping_use_def reduce_toppings_at)
  show "beverage_ledger b s' = beverage_ledger b s"
    by (rule beverage_ledger_cong) (simp_all add: assms(2) reduce_stock_of_ingredients_def)
qed

lemma map_replace_fresh:
  "\<forall>p \<in> set ps. pizza_id p \<noteq> n \<Longrightarrow> map (\<lambda>p. if pizza_id p = n then q else p) ps = ps"
  by (induction ps) auto

lemma crud_add_pizza_to_order_state:
  assumes "\<forall>p \<in> set (pizzas s). pizza_id p \<noteq> next_uuid s"
  shows "snd (crud_add_pizza_to_order order (Some pt) s)
           = s\<lparr>pizzas := pizzas s @ [\<lparr>pizza_id = next_uuid s,
                                         pizza_order_id = Some (order_id order),
                                         pizza_type_id = Some (pt_id pt)\<rparr>],
                next_uuid := Suc (next_uuid s)\<rparr>"
  using assms
  by (simp add: crud_add_pizza_to_order_def crud_create_pizza_def Let_def map_replace_fresh)

lemma add_pizza_to_order_keeps_ledger:
  assumes "\<forall>p \<in> set (pizzas s). pizza_id p \<noteq> next_uuid s"
  shows "dough_ledger d (snd (add_pizza_to_order oid ptid s)) = dough_ledger d s
       \<and> topping_ledger t (snd (add_pizza_to_order oid ptid s)) = topping_ledger t s
       \<and> beverage_ledger b (snd (add_pizza_to_order oid ptid s)) = beverage_ledger b s"
proof (cases "\<exists>order pt. crud_get_order_by_id oid s = Some order
                \<and> get_pizza_type_by_id ptid s = Some pt \<and> ingredients_are_available pt s")
  case False
  then have "snd (add_pizza_to_order oid ptid s) = s"
    by (auto simp: add_pizza_to_order_def split: option.splits)
  then show ?thesis by simp
next
  case True
  then obtain order pt where o: "crud_get_order_by_id oid s = Some order"
    and p: "get_pizza_type_by_id ptid s = Some pt" and a: "ingredients_are_available pt s"
    by blast
  let ?pizza = "\<lparr>pizza_id = next_uuid s, pizza_order_id = Some (order_id order),
                  pizza_type_id = Some (pt_id pt)\<rparr>"
  have fresh: "\<forall>p \<in> set (pizzas (reduce_stock_of_ingredients pt s)).
                 pizza_id p \<noteq> next_uuid (reduce_stock_of_ingredients pt s)"
    using assms by (simp add: reduce_stock_of_ingredients_def)
  have st: "snd (add_pizza_to_order oid ptid s)
              = (reduce_stock_of_ingredients pt s)
                  \<lparr>pizzas := pizzas s @ [?pizza], next_uuid := Suc (next_uuid s)\<rparr>"
  proof -
    have "snd (crud_add_pizza_to_order order (Some pt) (reduce_stock_of_ingredients pt s))
            = (reduce_stock_of_ingredients pt s)
                \<lparr>pizzas := pizzas s @ [?pizza], next_uuid := Suc (next_uuid s)\<rparr>"
      using crud_add_pizza_to_order_state[OF fresh, of order pt]
      by (simp add: reduce_stock_of_ingredients_def)
    then show ?thesis
      using o p a by (simp add: add_pizza_to_order_def Let_def case_prod_beta)
  qed
  have new: "pizza_type_of ?pizza s = Some pt"
    using p get_pizza_type_by_id_Some[OF p] by (simp add: pizza_type_of_def)
  show ?thesis
    using pizza_added_keeps_ledger[OF new st] by simp
qed

text \<open>One pizza less, removed through its own order.\<close>

lemma find_narrowed:
  "find (\<lambda>q. pizza_id q = pid) ps = Some p \<Longrightarrow> P p
     \<Longrightarrow> find (\<lambda>q. P q \<and> pizza_id q = pid) ps = Some p"
  by (induction ps) (auto split: if_splits)

lemma sum_list_without:
  assumes "distinct (map pizza_id ps)" and "p \<in> set ps"
  shows "sum_list (map f (filter (\<lambda>q. pizza_id q \<noteq> pizza_id p) ps))
           = sum_list (map f ps) - (f p :: int)"
  using assms
proof (induction ps)
  case Nil
  then show ?case by simp
next
  case (Cons a ps)
  show ?case
  proof (cases "a = p")
    case True
    then have "filter (\<lambda>q. pizza_id q \<noteq> pizza_id p) ps = ps"
      using Cons.prems by (auto simp: filter_id_conv image_iff)
    with True show ?thesis by simp
  next
    case False
    then have "pizza_id a \<noteq> pizza_id p" using Cons.prems by (auto simp: image_iff)
    with False Cons show ?thesis by simp
  qed
qed

lemma delete_pizza_from_order_keeps_ledger:
  assumes "distinct (map pizza_id (pizzas s))"
    and "crud_get_order_by_id oid s = Some order"
    and "crud_get_pizza_by_id pid s = Some pizza"
    and "pizza_order_id pizza = Some oid"
    and "pizza_type_of pizza s = Some pizza_type"
  shows "fst (delete_pizza_from_order oid pid s) = Response 200
       \<and> pizzas (snd (delete_pizza_from_order oid pid s))
           = filter (\<lambda>q. pizza_id q \<noteq> pid) (pizzas s)
       \<and> dough_ledger d (snd (delete_pizza_from_order oid pid s)) = dough_ledger d s
       \<and> topping_ledger t (snd (delete_pizza_from_order oid pid s)) = topping_ledger t s
       \<and> beverage_ledger b (snd (delete_pizza_from_order oid pid s)) = beverage_ledger b s"
proof -
  have oid: "order_id order = oid" using assms(2) by (rule get_order_by_id_Some)
  have mem: "pizza \<in> set (pizzas s)" and pid: "pizza_id pizza = pid"
    using assms(3) by (auto simp: crud_get_pizza_by_id_def find_Some_iff in_set_conv_nth)
  let ?s' = "(increase_stock_of_ingredients pizza_type s)
               \<lparr>pizzas := filter (\<lambda>q. pizza_id q \<noteq> pid) (pizzas s)\<rparr>"
  have "find (\<lambda>q. pizza_order_id q = Some oid \<and> pizza_id q = pid) (pizzas s) = Some pizza"
    using assms(3,4) by (intro find_narrowed) (simp_all add: crud_get_pizza_by_id_def)
  then have "crud_delete_pizza_from_order order pid (increase_stock_of_ingredients pizza_type s)
               = (True, ?s')"
    by (simp add: crud_delete_pizza_from_order_def oid increase_stock_of_ingredients_def pid)
  then have res: "delete_pizza_from_order oid pid s = (Response 200, ?s')"
    using assms(2,3,5) by (simp add: delete_pizza_from_order_def)
  have "pizza_types ?s' = pizza_types s" by (simp add: increase_stock_of_ingredients_def)
  note u = use_cong[OF this]
  have "dough_ledger d ?s' = dough_ledger d s"
    unfolding dough_ledger_def dough_in_orders_def u
    using sum_list_without[OF assms(1) mem, unfolded pid, of "dough_use d s"] assms(5)
    by (simp add: increase_stock_of_ingredients_def dough_use_def)
  moreover have "topping_ledger t ?s' = topping_ledger t s"
    unfolding topping_ledger_def topping_in_orders_def u
    using sum_list_without[OF assms(1) mem, unfolded pid, of "topping_use t s"] assms(5)
    by (simp add: increase_stock_of_ingredients_def topping_use_def increase_toppings_at)
  moreover have "beverage_ledger b ?s' = beverage_ledger b s"
    by (rule beverage_ledger_cong) (simp_all add: increase_stock_of_ingredients_def)
  ultimately show ?thesis by (simp add: res)
qed

text \<open>Beverage lines.\<close>

lemma find_line_key:
  "find (\<lambda>line. obq_beverage_id line = b \<and> obq_order_id line = oid) ls = Some l
     \<Longrightarrow> l \<in> set ls \<and> obq_beverage_id l = b \<and> obq_order_id l = oid"
  by (induction ls) (auto split: if_splits)

lemma line_sum_updated:
  assumes "distinct (map line_key ls)" and "l \<in> set ls"
  shows "sum_list (map obq_quantity
           (filter (\<lambda>line. obq_beverage_id line = b)
              (map (\<lambda>line. if obq_order_id line = obq_order_id l
                                \<and> obq_beverage_id line = obq_beverage_id l
                             then line\<lparr>obq_quantity := n\<rparr> else line) ls)))
         = sum_list (map obq_quantity (filter (\<lambda>line. obq_beverage_id line = b) ls))
           + (if obq_beverage_id l = b then n - obq_quantity l else 0)"
  using assms
proof (induction ls)
  case Nil then show ?case by simp
next
  case (Cons a ls)
  show ?case
  proof (cases "a = l")
    case True
    have "map (\<lambda>line. if obq_order_id line = obq_order_id l
                                \<and> obq_beverage_id line = obq_beverage_id l
                             then line\<lparr>obq_quantity := n\<rparr> else line) ls = ls"
      using Cons.prems True by (intro map_idI) (force simp: line_key_def image_iff)
    with True show ?thesis by simp
  next
    case False
    then have "\<not> (obq_order_id a = obq_order_id l \<and> obq_beverage_id a = obq_beverage_id l)"
      using Cons.prems by (force simp: line_key_def image_iff)
    with False Cons show ?thesis by auto
  qed
qed

lemma line_sum_removed:
  assumes "distinct (map line_key ls)" and "l \<in> set ls"
  shows "sum_list (map obq_quantity
           (filter (\<lambda>line. obq_beverage_id line = b)
              (filter (\<lambda>line. \<not> (obq_order_id line = obq_order_id l
                                \<and> obq_beverage_id line = obq_beverage_id l)) ls)))
         = sum_list (map obq_quantity (filter (\<lambda>line. obq_beverage_id line = b) ls))
           - (if obq_beverage_id l = b then obq_quantity l else 0)"
  using assms
proof (induction ls)
  case Nil then show ?case by simp
next
  case (Cons a ls)
  show ?case
  proof (cases "a = l")
    case True
    have "filter (\<lambda>line. \<not> (obq_order_id line = obq_order_id l
                                \<and> obq_beverage_id line = obq_beverage_id l)) ls = ls"
      using Cons.prems True by (force simp: filter_id_conv line_key_def image_iff)
    with True show ?thesis by simp
  next
    case False
    then have "\<not> (obq_order_id a = obq_order_id l \<and> obq_beverage_id a = obq_beverage_id l)"
      using Cons.prems by (force simp: line_key_def image_iff)
    with False Cons show ?thesis by auto
  qed
qed

lemma create_order_beverage_keeps_ledger:
  "beverage_ledger b (snd (create_order_beverage oid beverage_quantity s)) = beverage_ledger b s"
  by (cases beverage_quantity)
     (auto simp: create_order_beverage_def beverage_is_available_def change_stock_of_beverage_def
        crud_create_beverage_quantity_def beverage_ledger_def beverage_in_orders_def stock_of_def Let_def
        split: option.splits)

lemma update_beverage_of_order_keeps_ledger:
  assumes "distinct (map line_key (order_beverages s))"
  shows "beverage_ledger b (snd (update_beverage_of_order oid beverage_quantity s))
           = beverage_ledger b s"
proof (cases "crud_get_beverage_quantity_by_id oid (fst beverage_quantity) s")
  case None
  then show ?thesis
    by (simp add: update_beverage_of_order_def Let_def split: option.splits)
next
  case (Some l)
  then have l: "l \<in> set (order_beverages s)" "obq_beverage_id l = fst beverage_quantity"
    "obq_order_id l = oid"
    using find_line_key by (auto simp: crud_get_beverage_quantity_by_id_def)
  have f: "find (\<lambda>line. oid = obq_order_id line \<and> fst beverage_quantity = obq_beverage_id line)
             (order_beverages s) = Some l"
    using Some unfolding crud_get_beverage_quantity_by_id_def
    by (simp add: conj_commute eq_commute)
  show ?thesis
    using Some f l line_sum_updated[OF assms l(1), of b "snd beverage_quantity"]
    by (auto simp: update_beverage_of_order_def Let_def change_stock_of_beverage_def
        crud_update_beverage_quantity_of_order_def beverage_ledger_def beverage_in_orders_def stock_of_def
        split: option.splits)
qed

lemma delete_beverage_from_order_keeps_ledger:
  assumes "distinct (map line_key (order_beverages s))"
    and "crud_get_beverage_quantity_by_id oid beverage_id s = Some l"
    and "beverages s beverage_id = Some beverage"
    and "0 \<le> beverage_stock beverage + obq_quantity l"
  shows "beverage_ledger b (snd (delete_beverage_from_order oid beverage_id s))
           = beverage_ledger b s"
proof (cases "crud_get_order_by_id oid s")
  case None
  then show ?thesis by (simp add: delete_beverage_from_order_def)
next
  case (Some order)
  have l: "l \<in> set (order_beverages s)" "obq_beverage_id l = beverage_id"
    "obq_order_id l = oid"
    using assms(2) find_line_key by (auto simp: crud_get_beverage_quantity_by_id_def)
  have f: "find (\<lambda>line. oid = obq_order_id line \<and> beverage_id = obq_beverage_id line)
             (order_beverages s) = Some l"
    using assms(2) unfolding crud_get_beverage_quantity_by_id_def
    by (simp add: conj_commute eq_commute)
  show ?thesis
    using Some assms(2,3,4) f l line_sum_removed[OF assms(1) l(1), of b]
    by (auto simp: delete_beverage_from_order_def Let_def change_stock_of_beverage_def
        crud_delete_beverage_from_order_def beverage_ledger_def beverage_in_orders_def stock_of_def
        split: option.splits)
qed

text \<open>Deleting an order restores what its lines hold.\<close>

lemma sum_list_filter_split:
  "sum_list (map f (filter (\<lambda>x. \<not> P x) xs))
     = sum_list (map f xs) - (sum_list (map f (filter P xs)) :: int)"
  by (induction xs) auto

lemma restore_pizzas_result:
  assumes "\<forall>p \<in> set ps. pizza_type_of p s \<noteq> None"
  shows "\<exists>ds ts. restore_pizzas ps s = (None, s\<lparr>dough_stock := ds, topping_stock := ts\<rparr>)
           \<and> (\<forall>d. ds d = dough_stock s d + sum_list (map (dough_use d s) ps))
           \<and> (\<forall>t. ts t = topping_stock s t + sum_list (map (topping_use t s) ps))"
  using assms
proof (induction ps arbitrary: s)
  case Nil
  show ?case
    by (rule exI[of _ "dough_stock s"], rule exI[of _ "topping_stock s"]) simp
next
  case (Cons p ps)
  then obtain pt where pt: "pizza_type_of p s = Some pt" by auto
  let ?s1 = "increase_stock_of_ingredients pt s"
  have same: "\<And>q. pizza_type_of q ?s1 = pizza_type_of q s"
    by (rule pizza_type_of_cong) (simp add: increase_stock_of_ingredients_def)
  then have "\<forall>q \<in> set ps. pizza_type_of q ?s1 \<noteq> None" using Cons.prems by simp
  from Cons.IH[OF this] obtain ds ts where
    r: "restore_pizzas ps ?s1 = (None, ?s1\<lparr>dough_stock := ds, topping_stock := ts\<rparr>)"
    and d: "\<forall>d. ds d = dough_stock ?s1 d + sum_list (map (dough_use d ?s1) ps)"
    and t: "\<forall>t. ts t = topping_stock ?s1 t + sum_list (map (topping_use t ?s1) ps)"
    by blast
  have u: "\<And>d. dough_use d ?s1 = dough_use d s" "\<And>t. topping_use t ?s1 = topping_use t s"
    by (auto simp: dough_use_def topping_use_def same fun_eq_iff)
  have 1: "restore_pizzas (p # ps) s = (None, s\<lparr>dough_stock := ds, topping_stock := ts\<rparr>)"
    using pt r by (simp add: increase_stock_of_ingredients_def)
  have 2: "ds d = dough_stock s d + sum_list (map (dough_use d s) (p # ps))" for d
    using d pt by (simp add: u) (simp add: dough_use_def increase_stock_of_ingredients_def)
  have 3: "ts t = topping_stock s t + sum_list (map (topping_use t s) (p # ps))" for t
    using t pt
    by (simp add: u)
       (simp add: topping_use_def increase_stock_of_ingredients_def increase_toppings_at)
  show ?case using 1 2 3 by blast
qed

lemma restore_beverages_result:
  assumes "\<forall>l \<in> set ls. beverages s (obq_beverage_id l) \<noteq> None \<and> 0 \<le> obq_quantity l"
    and "\<forall>b. 0 \<le> stock_of (beverages s b)"
  shows "\<exists>bm. restore_beverages ls s = s\<lparr>beverages := bm\<rparr>
           \<and> (\<forall>b. stock_of (bm b) = stock_of (beverages s b)
                  + sum_list (map obq_quantity (filter (\<lambda>l. obq_beverage_id l = b) ls)))"
  using assms
proof (induction ls arbitrary: s)
  case Nil
  show ?case by (rule exI[of _ "beverages s"]) simp
next
  case (Cons l ls)
  then obtain bev where bev: "beverages s (obq_beverage_id l) = Some bev" by auto
  have nn: "0 \<le> beverage_stock bev" using Cons.prems(2) bev
    by (metis stock_of_def option.simps(5))
  have q: "0 \<le> obq_quantity l" using Cons.prems(1) by simp
  let ?s1 = "s\<lparr>beverages := (beverages s)(obq_beverage_id l \<mapsto>
                 bev\<lparr>beverage_stock := beverage_stock bev + obq_quantity l\<rparr>)\<rparr>"
  have step: "snd (change_stock_of_beverage (obq_beverage_id l) (obq_quantity l) s) = ?s1"
    using bev nn q by (simp add: change_stock_of_beverage_def)
  have 1: "\<forall>l' \<in> set ls. beverages ?s1 (obq_beverage_id l') \<noteq> None \<and> 0 \<le> obq_quantity l'"
    using Cons.prems(1) by simp
  have 2: "\<forall>b. 0 \<le> stock_of (beverages ?s1 b)"
    using Cons.prems(2) nn q by (simp add: stock_of_def)
  from Cons.IH[OF 1 2] obtain bm where
    r: "restore_beverages ls ?s1 = ?s1\<lparr>beverages := bm\<rparr>"
    and b: "\<forall>b. stock_of (bm b) = stock_of (beverages ?s1 b)
                  + sum_list (map obq_quantity (filter (\<lambda>l. obq_beverage_id l = b) ls))"
    by blast
  have 3: "restore_beverages (l # ls) s = s\<lparr>beverages := bm\<rparr>"
    using r by (simp add: step)
  have 4: "stock_of (bm b) = stock_of (beverages s b)
             + sum_list (map obq_quantity (filter (\<lambda>l. obq_beverage_id l = b) (l # ls)))" for b
    using b bev by (simp add: stock_of_def)
  show ?case using 3 4 by blast
qed

lemma delete_order_keeps_ledger:
  assumes "crud_get_order_by_id oid s = Some order"
    and "\<forall>p \<in> set (order_pizzas order s). pizza_type_of p s \<noteq> None"
    and "\<forall>l \<in> set (order_beverage_lines order s).
           beverages s (obq_beverage_id l) \<noteq> None \<and> 0 \<le> obq_quantity l"
    and "\<forall>b. 0 \<le> stock_of (beverages s b)"
  shows "fst (delete_order oid s) = Response 204
       \<and> dough_ledger d (snd (delete_order oid s)) = dough_ledger d s
       \<and> topping_ledger t (snd (delete_order oid s)) = topping_ledger t s
       \<and> beverage_ledger b (snd (delete_order oid s)) = beverage_ledger b s"
proof -
  have oid: "order_id order = oid" using assms(1) by (rule get_order_by_id_Some)
  from restore_pizzas_result[OF assms(2)] obtain ds ts where
    r: "restore_pizzas (order_pizzas order s) s = (None, s\<lparr>dough_stock := ds, topping_stock := ts\<rparr>)"
    and d: "\<forall>d. ds d = dough_stock s d + sum_list (map (dough_use d s) (order_pizzas order s))"
    and t: "\<forall>t. ts t = topping_stock s t + sum_list (map (topping_use t s) (order_pizzas order s))"
    by blast
  let ?s1 = "s\<lparr>dough_stock := ds, topping_stock := ts\<rparr>"
  have lines: "order_beverage_lines order ?s1 = order_beverage_lines order s"
    by (simp add: order_beverage_lines_def)
  have "\<forall>l \<in> set (order_beverage_lines order ?s1).
           beverages ?s1 (obq_beverage_id l) \<noteq> None \<and> 0 \<le> obq_quantity l"
    and "\<forall>b. 0 \<le> stock_of (beverages ?s1 b)"
    using assms(3,4) by (simp_all add: lines)
  from restore_beverages_result[OF this] obtain bm where
    rb: "restore_beverages (order_beverage_lines order ?s1) ?s1 = ?s1\<lparr>beverages := bm\<rparr>"
    and b: "\<forall>b. stock_of (bm b) = stock_of (beverages s b)
                  + sum_list (map obq_quantity (filter (\<lambda>l. obq_beverage_id l = b)
                       (order_beverage_lines order s)))"
    by (auto simp: lines)
  let ?s2 = "?s1\<lparr>beverages := bm\<rparr>"
  have g: "crud_get_order_by_id oid ?s2 = Some order"
    using assms(1) by (simp add: crud_get_order_by_id_def)
  have res: "delete_order oid s = (Response 204, crud_delete_order_by_id oid ?s2)"
    using assms(1) r rb by (simp add: delete_order_def)
  let ?s3 = "crud_delete_order_by_id oid ?s2"
  have s3: "?s3 = ?s2\<lparr>orders := filter (\<lambda>order. order_id order \<noteq> oid) (orders s),
             pizzas := filter (\<lambda>pizza. pizza_order_id pizza \<noteq> Some oid) (pizzas s),
             order_beverages := filter (\<lambda>line. obq_order_id line \<noteq> oid) (order_beverages s)\<rparr>"
    using g by (simp add: crud_delete_order_by_id_def oid)
  have "pizza_types ?s3 = pizza_types s" by (simp add: s3)
  note u = use_cong[OF this]
  have "dough_ledger d ?s3 = dough_ledger d s"
    using d sum_list_filter_split[of "dough_use d s" "\<lambda>p. pizza_order_id p = Some oid" "pizzas s"]
    unfolding dough_ledger_def dough_in_orders_def u
    by (simp add: s3 order_pizzas_def oid)
  moreover have "topping_ledger t ?s3 = topping_ledger t s"
    using t sum_list_filter_split[of "topping_use t s" "\<lambda>p. pizza_order_id p = Some oid" "pizzas s"]
    unfolding topping_ledger_def topping_in_orders_def u
    by (simp add: s3 order_pizzas_def oid)
  moreover have "beverage_ledger b ?s3 = beverage_ledger b s"
    using b sum_list_filter_split[of obq_quantity "\<lambda>l. obq_order_id l = oid"
        "filter (\<lambda>l. obq_beverage_id l = b) (order_beverages s)"]
    unfolding beverage_ledger_def beverage_in_orders_def
    by (simp add: s3 order_beverage_lines_def oid stock_of_def conj_commute)
  ultimately show ?thesis by (simp add: res)
qed

text \<open>A copy that runs to its end.\<close>

lemma copy_step_keeps_ledger:
  fixes new_order :: Order and pt :: PizzaType and s :: db
  assumes "\<forall>p \<in> set (pizzas s). pizza_id p < next_uuid s"
    and "pizza_type_of p s = Some pt"
  defines "s1 \<equiv> reduce_stock_of_ingredients pt (snd (crud_add_pizza_to_order new_order (Some pt) s))"
  shows "dough_ledger d s1 = dough_ledger d s" and "topping_ledger t s1 = topping_ledger t s"
    and "beverage_ledger b s1 = beverage_ledger b s"
    and "\<forall>p \<in> set (pizzas s1). pizza_id p < next_uuid s1"
proof -
  let ?pizza = "\<lparr>pizza_id = next_uuid s, pizza_order_id = Some (order_id new_order),
                  pizza_type_id = Some (pt_id pt)\<rparr>"
  have "\<forall>p \<in> set (pizzas s). pizza_id p \<noteq> next_uuid s" using assms(1) by auto
  then have st: "s1 = (reduce_stock_of_ingredients pt s)
                        \<lparr>pizzas := pizzas s @ [?pizza], next_uuid := Suc (next_uuid s)\<rparr>"
    unfolding s1_def
    by (simp add: crud_add_pizza_to_order_state) (simp add: reduce_stock_of_ingredients_def)
  have new: "pizza_type_of ?pizza s = Some pt"
    using pizza_type_of_Some_id[OF assms(2)] by (simp add: pizza_type_of_def)
  show "dough_ledger d s1 = dough_ledger d s" "topping_ledger t s1 = topping_ledger t s"
    "beverage_ledger b s1 = beverage_ledger b s"
    by (rule pizza_added_keeps_ledger[OF new st])+
  show "\<forall>p \<in> set (pizzas s1). pizza_id p < next_uuid s1"
    using assms(1) by (auto simp: st reduce_stock_of_ingredients_def less_Suc_eq)
qed

lemma copy_pizzas_keeps_ledger:
  assumes "\<forall>p \<in> set (pizzas s). pizza_id p < next_uuid s"
    and "copy_pizzas ps new_order s = (None, s')"
  shows "dough_ledger d s' = dough_ledger d s \<and> topping_ledger t s' = topping_ledger t s
       \<and> beverage_ledger b s' = beverage_ledger b s"
  using assms
proof (induction ps arbitrary: s)
  case Nil
  then show ?case by simp
next
  case (Cons p ps)
  from Cons.prems(2) obtain pt where pt: "pizza_type_of p s = Some pt"
    by (cases "pizza_type_of p s") auto
  let ?s1 = "reduce_stock_of_ingredients pt (snd (crud_add_pizza_to_order new_order (Some pt) s))"
  have rest: "copy_pizzas ps new_order ?s1 = (None, s')"
    using Cons.prems(2) pt by (simp split: if_splits)
  note k = copy_step_keeps_ledger[OF Cons.prems(1) pt, where new_order = new_order]
  from Cons.IH[OF k(4) rest] show ?case
    using k(1)[of d] k(2)[of t] k(3)[of b] by simp
qed

lemma copy_beverages_keeps_ledger:
  assumes "copy_beverages ls new_order s = (None, s')"
  shows "dough_ledger d s' = dough_ledger d s \<and> topping_ledger t s' = topping_ledger t s
       \<and> beverage_ledger b s' = beverage_ledger b s"
  using assms
proof (induction ls arbitrary: s)
  case Nil
  then show ?case by simp
next
  case (Cons l ls)
  obtain changed s1 where c:
    "change_stock_of_beverage (obq_beverage_id l) (- obq_quantity l) s = (changed, s1)"
    by (cases "change_stock_of_beverage (obq_beverage_id l) (- obq_quantity l) s")
  with Cons.prems have ch: changed by (auto split: if_splits)
  let ?s2 = "snd (crud_create_beverage_quantity new_order (obq_beverage_id l, obq_quantity l) s1)"
  have rest: "copy_beverages ls new_order ?s2 = (None, s')"
    using Cons.prems c ch by simp
  from c ch obtain bev where bev: "beverages s (obq_beverage_id l) = Some bev"
    and s1: "s1 = s\<lparr>beverages := (beverages s)(obq_beverage_id l \<mapsto>
                     bev\<lparr>beverage_stock := beverage_stock bev + - obq_quantity l\<rparr>)\<rparr>"
    by (auto simp: change_stock_of_beverage_def split: option.splits if_splits)
  have "beverage_ledger b ?s2 = beverage_ledger b s"
    using bev by (simp add: s1 crud_create_beverage_quantity_def beverage_ledger_def
        beverage_in_orders_def stock_of_def Let_def)
  moreover have "dough_ledger d ?s2 = dough_ledger d s" "topping_ledger t ?s2 = topping_ledger t s"
    by (rule ledger_cong; simp add: s1 crud_create_beverage_quantity_def Let_def)+
  ultimately show ?case using Cons.IH[OF rest] by simp
qed

lemma copy_pizzas_early:
  "copy_pizzas ps new_order s = (Some r, s') \<Longrightarrow> r = UncaughtError \<or> r = HTTPException 409"
  by (induction ps arbitrary: s) (auto split: option.splits if_splits)

lemma copy_beverages_early:
  "copy_beverages ls new_order s = (Some r, s') \<Longrightarrow> r = HTTPException 409"
  by (induction ls arbitrary: s) (auto split: prod.splits if_splits)

lemma create_order_keeps_ledger:
  assumes "\<forall>p \<in> set (pizzas s). pizza_id p < next_uuid s"
    and "fst (create_order uid copy_order_id s) = ReturnOrder n"
  shows "dough_ledger d (snd (create_order uid copy_order_id s)) = dough_ledger d s
       \<and> topping_ledger t (snd (create_order uid copy_order_id s)) = topping_ledger t s
       \<and> beverage_ledger b (snd (create_order uid copy_order_id s)) = beverage_ledger b s"
proof -
  let ?new = "\<lparr>order_id = next_uuid s, order_user_id = uid, order_status = TRANSMITTED\<rparr>"
  let ?s1 = "s\<lparr>orders := orders s @ [?new], next_uuid := Suc (next_uuid s)\<rparr>"
  have c: "crud_create_order uid s = (?new, ?s1)" by (simp add: crud_create_order_def Let_def)
  have u: "uid \<in> set (users s)" using assms(2) by (auto simp: create_order_def split: if_splits)
  have l1: "dough_ledger d ?s1 = dough_ledger d s" "topping_ledger t ?s1 = topping_ledger t s"
    "beverage_ledger b ?s1 = beverage_ledger b s"
    by (rule ledger_cong beverage_ledger_cong; simp)+
  have f1: "\<forall>p \<in> set (pizzas ?s1). pizza_id p < next_uuid ?s1"
    using assms(1) by (auto simp: less_Suc_eq)
  show ?thesis
  proof (cases copy_order_id)
    case None
    then show ?thesis using u c l1 by (simp add: create_order_def)
  next
    case (Some cid)
    from assms(2) u c Some obtain copy_order where
      co: "crud_get_order_by_id cid ?s1 = Some copy_order"
      by (cases "crud_get_order_by_id cid ?s1") (auto simp: create_order_def)
    from assms(2) u c Some co obtain s2 where
      cp: "copy_pizzas (order_pizzas copy_order ?s1) ?new ?s1 = (None, s2)"
      by (cases "copy_pizzas (order_pizzas copy_order ?s1) ?new ?s1")
         (auto simp: create_order_def split: option.splits dest: copy_pizzas_early)
    from assms(2) u c Some co cp obtain s3 where
      cb: "copy_beverages (order_beverage_lines copy_order s2) ?new s2 = (None, s3)"
      by (cases "copy_beverages (order_beverage_lines copy_order s2) ?new s2")
         (auto simp: create_order_def split: option.splits dest: copy_beverages_early)
    have res: "snd (create_order uid copy_order_id s) = s3"
      using u c Some co cp cb by (simp add: create_order_def)
    show ?thesis
      using copy_pizzas_keeps_ledger[OF f1 cp, of d t b]
        copy_beverages_keeps_ledger[OF cb, of d t b] l1
      by (simp add: res)
  qed
qed

subsection \<open>Calls that break it\<close>

text \<open>
  Claim C2, at a template the stock cannot serve twice. Order 1 holds two pizzas of a
  type whose dough has one unit left. Copying it creates order 6, copies the first
  pizza and reduces the stock, finds the dough missing for the second pizza and raises
  409 after deleting order 6 with its pizza. The stock is not given back: the dough
  count is 0 where it was 1, the topping count 8 where it was 10.
\<close>

theorem create_order_copy_keeps_consumed_stock:
  "fst (create_order 1 (Some 1) scarce_dough_db) = HTTPException 409
 \<and> crud_get_order_by_id 6 (snd (create_order 1 (Some 1) scarce_dough_db)) = None
 \<and> pizzas (snd (create_order 1 (Some 1) scarce_dough_db)) = pizzas scarce_dough_db
 \<and> dough_stock scarce_dough_db 1 = 1
 \<and> dough_stock (snd (create_order 1 (Some 1) scarce_dough_db)) 1 = 0
 \<and> topping_stock scarce_dough_db 1 = 10
 \<and> topping_stock (snd (create_order 1 (Some 1) scarce_dough_db)) 1 = 8"
  by (simp add: create_order_def example_defs crud_defs stock_defs Let_def)

text \<open>
  Claim C3, at a pizza of another order. Pizza 3 belongs to order 1. Asked to remove
  it from order 2, \<open>delete_pizza_from_order\<close> answers 404 and keeps the pizza row, but
  it has increased the stock of the ingredients before looking the pizza up within the
  order: the dough count is 6 where it was 5, the topping count 12 where it was 10.
\<close>

theorem delete_pizza_from_other_order_increases_stock:
  "fst (delete_pizza_from_order 2 3 ordered_db) = Response 404
 \<and> pizzas (snd (delete_pizza_from_order 2 3 ordered_db)) = pizzas ordered_db
 \<and> dough_stock ordered_db 1 = 5
 \<and> dough_stock (snd (delete_pizza_from_order 2 3 ordered_db)) 1 = 6
 \<and> topping_stock ordered_db 1 = 10
 \<and> topping_stock (snd (delete_pizza_from_order 2 3 ordered_db)) 1 = 12"
  by (simp add: delete_pizza_from_order_def example_defs crud_defs stock_defs Let_def)

text \<open>
  Claim C1, at two calls that break the balance of stock and lines. The ledger of an
  ingredient is its stock plus what the existing lines hold of it. A copy of order 1
  that fails on the beverage line ends with the lines it started with, yet the ledger
  of dough 1 has gone from 6 to 5 and that of topping 1 from 12 to 10: a decrement
  without a line. Removing pizza 3 through order 2, which does not own it, fails and
  raises the ledger of dough 1 from 6 to 7: a restoration without a removed line.
\<close>

theorem stock_ledger_broken_by_failed_calls:
  "fst (create_order 1 (Some 1) scarce_beverage_db) = HTTPException 409
 \<and> pizzas (snd (create_order 1 (Some 1) scarce_beverage_db)) = pizzas scarce_beverage_db
 \<and> order_beverages (snd (create_order 1 (Some 1) scarce_beverage_db))
     = order_beverages scarce_beverage_db
 \<and> dough_ledger 1 scarce_beverage_db = 6
 \<and> dough_ledger 1 (snd (create_order 1 (Some 1) scarce_beverage_db)) = 5
 \<and> topping_ledger 1 scarce_beverage_db = 12
 \<and> topping_ledger 1 (snd (create_order 1 (Some 1) scarce_beverage_db)) = 10
 \<and> fst (delete_pizza_from_order 2 3 ordered_db) = Response 404
 \<and> dough_ledger 1 ordered_db = 6
 \<and> dough_ledger 1 (snd (delete_pizza_from_order 2 3 ordered_db)) = 7"
  by (simp add: create_order_def delete_pizza_from_order_def example_defs crud_defs
      stock_defs ledger_defs Let_def)

end
